theory Spec2Isabelle
  imports Complex_Main
begin

section \<open>The cache and rate-limit layer of redis.config.ts\<close>

text \<open>
  The theory embeds \<^verbatim>\<open>src/api/src/config/redis.config.ts\<close>: the key table
  \<^verbatim>\<open>CACHE_KEYS\<close>, the table \<^verbatim>\<open>TTL\<close>, the class \<^verbatim>\<open>CyberCellCache\<close> and the
  Express middleware \<^verbatim>\<open>cacheMiddleware\<close>. The Redis server, the client library and the
  JavaScript runtime are not part of the repository; they are modelled by what their
  documentation says of the commands the file uses (GET, SETEX, INCR, EXPIRE, MULTI/EXEC,
  \<^verbatim>\<open>JSON.stringify\<close>, \<^verbatim>\<open>JSON.parse\<close>, \<^verbatim>\<open>parseInt\<close>).
\<close>

subsection \<open>Cache keys\<close>

text \<open>
  \<^verbatim>\<open>CACHE_KEYS\<close> has twenty-two string entries, which take no identifier, and nine
  entries that are functions of one, \<^verbatim>\<open>(id) => `cybercell:alert:${id}`\<close>. One constructor
  stands for each entry; a function entry carries the identifier, a string, which the
  template literal appends as it is.
\<close>

datatype cache_key =
    ACTIVE_ALERTS
  | CRITICAL_ALERTS
  | ALERT_DETAILS string
  | INCIDENTS
  | INCIDENT_DETAILS string
  | DASHBOARD_METRICS
  | ACTIVE_THREATS_COUNT
  | REVENUE_AT_RISK
  | NETWORK_HEALTH
  | SLA_STATUS
  | FRAUD_TIMELINE
  | FRAUD_STATS
  | SIMBOX_ALERTS
  | SIMSWAP_ALERTS
  | DDOS_ALERTS
  | ML_PREDICTIONS
  | MODEL_CONFIDENCE string
  | CORRELATION_RESULTS
  | INVESTIGATIONS
  | INVESTIGATION_DETAILS string
  | CORRELATION_ENGINE
  | NETWORK_TRAFFIC
  | TRAFFIC_BASELINE
  | NETWORK_ANOMALIES
  | SYSTEM_COMPONENTS
  | COMPONENT_STATUS string
  | SYSTEM_UPTIME
  | USER_SESSION string
  | USER_PERMISSIONS string
  | RATE_LIMIT string
  | API_CALLS string

fun CACHE_KEYS :: "cache_key \<Rightarrow> string" where
  "CACHE_KEYS ACTIVE_ALERTS = ''cybercell:alerts:active''"
| "CACHE_KEYS CRITICAL_ALERTS = ''cybercell:alerts:critical''"
| "CACHE_KEYS (ALERT_DETAILS i) = ''cybercell:alert:'' @ i"
| "CACHE_KEYS INCIDENTS = ''cybercell:incidents:all''"
| "CACHE_KEYS (INCIDENT_DETAILS i) = ''cybercell:incident:'' @ i"
| "CACHE_KEYS DASHBOARD_METRICS = ''cybercell:dashboard:metrics''"
| "CACHE_KEYS ACTIVE_THREATS_COUNT = ''cybercell:metrics:active_threats''"
| "CACHE_KEYS REVENUE_AT_RISK = ''cybercell:metrics:revenue_risk''"
| "CACHE_KEYS NETWORK_HEALTH = ''cybercell:metrics:network_health''"
| "CACHE_KEYS SLA_STATUS = ''cybercell:metrics:sla_status''"
| "CACHE_KEYS FRAUD_TIMELINE = ''cybercell:fraud:timeline''"
| "CACHE_KEYS FRAUD_STATS = ''cybercell:fraud:statistics''"
| "CACHE_KEYS SIMBOX_ALERTS = ''cybercell:fraud:simbox''"
| "CACHE_KEYS SIMSWAP_ALERTS = ''cybercell:fraud:simswap''"
| "CACHE_KEYS DDOS_ALERTS = ''cybercell:fraud:ddos''"
| "CACHE_KEYS ML_PREDICTIONS = ''cybercell:ml:predictions''"
| "CACHE_KEYS (MODEL_CONFIDENCE i) = ''cybercell:ml:confidence:'' @ i"
| "CACHE_KEYS CORRELATION_RESULTS = ''cybercell:correlations:active''"
| "CACHE_KEYS INVESTIGATIONS = ''cybercell:investigations:active''"
| "CACHE_KEYS (INVESTIGATION_DETAILS i) = ''cybercell:investigation:'' @ i"
| "CACHE_KEYS CORRELATION_ENGINE = ''cybercell:correlation:engine_status''"
| "CACHE_KEYS NETWORK_TRAFFIC = ''cybercell:network:traffic''"
| "CACHE_KEYS TRAFFIC_BASELINE = ''cybercell:network:baseline''"
| "CACHE_KEYS NETWORK_ANOMALIES = ''cybercell:network:anomalies''"
| "CACHE_KEYS SYSTEM_COMPONENTS = ''cybercell:system:components''"
| "CACHE_KEYS (COMPONENT_STATUS i) = ''cybercell:system:component:'' @ i"
| "CACHE_KEYS SYSTEM_UPTIME = ''cybercell:system:uptime''"
| "CACHE_KEYS (USER_SESSION i) = ''cybercell:session:'' @ i"
| "CACHE_KEYS (USER_PERMISSIONS i) = ''cybercell:permissions:'' @ i"
| "CACHE_KEYS (RATE_LIMIT i) = ''cybercell:ratelimit:'' @ i"
| "CACHE_KEYS (API_CALLS i) = ''cybercell:api:calls:'' @ i"

subsection \<open>Expiry tiers\<close>

text \<open>The table \<^verbatim>\<open>TTL\<close>, in seconds.\<close>

definition TTL_REAL_TIME :: int where "TTL_REAL_TIME = 30"
definition TTL_DASHBOARD :: int where "TTL_DASHBOARD = 60"
definition TTL_ALERTS :: int where "TTL_ALERTS = 300"
definition TTL_INVESTIGATIONS :: int where "TTL_INVESTIGATIONS = 600"
definition TTL_SYSTEM_STATS :: int where "TTL_SYSTEM_STATS = 300"
definition TTL_ML_PREDICTIONS :: int where "TTL_ML_PREDICTIONS = 180"
definition TTL_NETWORK_DATA :: int where "TTL_NETWORK_DATA = 60"
definition TTL_SESSION :: int where "TTL_SESSION = 3600"
definition TTL_RATE_LIMIT :: int where "TTL_RATE_LIMIT = 60"

subsection \<open>JavaScript values\<close>

text \<open>
  The values the facade receives and returns. Numbers are rationals (the rounding of
  doubles is not modelled), \<open>JNaN\<close> is the number NaN. An object is the list of its
  properties in insertion order, which is the order \<^verbatim>\<open>JSON.stringify\<close> writes them in;
  the objects this file builds have distinct property names.
\<close>

datatype jsval =
    JUndefined
  | JNull
  | JBool bool
  | JNum rat
  | JNaN
  | JStr string
  | JArr "jsval list"
  | JObj "(string \<times> jsval) list"

datatype error = TypeError | SyntaxError | ConnectionError | ReplyError

text \<open>Truthiness, as \<^verbatim>\<open>||\<close> tests it.\<close>

fun truthy :: "jsval \<Rightarrow> bool" where
  "truthy JUndefined = False"
| "truthy JNull = False"
| "truthy (JBool b) = b"
| "truthy (JNum r) = (r \<noteq> 0)"
| "truthy JNaN = False"
| "truthy (JStr s) = (s \<noteq> [])"
| "truthy (JArr xs) = True"
| "truthy (JObj kvs) = True"

text \<open>
  Reading a property \<^verbatim>\<open>v.name\<close>, for the names this file reads (none of them is a
  built-in property of a string, a number or an array): a missing property is
  \<^verbatim>\<open>undefined\<close>. Reading from \<^verbatim>\<open>undefined\<close> or \<^verbatim>\<open>null\<close> throws a TypeError, which
  is for the caller of \<open>member_of\<close> to model.
\<close>

fun nullish :: "jsval \<Rightarrow> bool" where
  "nullish JUndefined = True"
| "nullish JNull = True"
| "nullish v = False"

fun member_of :: "jsval \<Rightarrow> string \<Rightarrow> jsval" where
  "member_of (JObj kvs) name = (case map_of kvs name of None \<Rightarrow> JUndefined | Some v \<Rightarrow> v)"
| "member_of v name = JUndefined"

text \<open>
  What \<^verbatim>\<open>JSON.parse(JSON.stringify(v))\<close> makes of a value inside a document: NaN becomes
  \<^verbatim>\<open>null\<close>, an \<^verbatim>\<open>undefined\<close> array element becomes \<^verbatim>\<open>null\<close>, a property whose value is
  \<^verbatim>\<open>undefined\<close> is left out. \<open>json_image\<close> leaves a bare \<open>JUndefined\<close> in place, for the
  array and the object around it to treat.
\<close>

definition undefined_to_null :: "jsval \<Rightarrow> jsval" where
  "undefined_to_null v = (if v = JUndefined then JNull else v)"

definition defined_props :: "(string \<times> jsval) list \<Rightarrow> (string \<times> jsval) list" where
  "defined_props kvs = filter (\<lambda>kv. snd kv \<noteq> JUndefined) kvs"

primrec json_image :: "jsval \<Rightarrow> jsval" where
  "json_image JUndefined = JUndefined"
| "json_image JNull = JNull"
| "json_image (JBool b) = JBool b"
| "json_image (JNum r) = JNum r"
| "json_image JNaN = JNull"
| "json_image (JStr s) = JStr s"
| "json_image (JArr xs) = JArr (map undefined_to_null (map json_image xs))"
| "json_image (JObj kvs) = JObj (defined_props (map (map_prod id json_image) kvs))"

subsection \<open>Stored text\<close>

text \<open>
  Redis stores strings. \<^verbatim>\<open>JSON.stringify\<close> and \<^verbatim>\<open>JSON.parse\<close> belong to the runtime, so a
  stored string is represented by what \<^verbatim>\<open>JSON.parse\<close> makes of it: \<open>Json v\<close> is the JSON
  text of the value \<open>v\<close> (the decimal text of a counter is \<open>Json (JNum n)\<close>), and
  \<open>Text s\<close> is a string \<open>s\<close> that is not a JSON text, the empty string among them.
\<close>

datatype payload = Json jsval | Text string

text \<open>
  \<^verbatim>\<open>JSON.stringify(v)\<close> returns \<^verbatim>\<open>undefined\<close> (here \<open>None\<close>) for \<^verbatim>\<open>undefined\<close> and a text
  otherwise.
\<close>

definition JSON_stringify :: "jsval \<Rightarrow> payload option" where
  "JSON_stringify v = (if json_image v = JUndefined then None else Some (Json (json_image v)))"

text \<open>\<^verbatim>\<open>JSON.parse\<close> throws a SyntaxError on a string that is not a JSON text.\<close>

fun JSON_parse :: "payload \<Rightarrow> error + jsval" where
  "JSON_parse (Json v) = Inr v"
| "JSON_parse (Text s) = Inl SyntaxError"

text \<open>A string is truthy when it is not empty.\<close>

fun text_truthy :: "payload \<Rightarrow> bool" where
  "text_truthy (Json v) = True"
| "text_truthy (Text s) = (s \<noteq> [])"

text \<open>
  The client library turns a command argument that is not a string into one:
  \<^verbatim>\<open>undefined\<close> and \<^verbatim>\<open>null\<close> become the empty string.
\<close>

definition string_arg :: "payload option \<Rightarrow> payload" where
  "string_arg a = (case a of None \<Rightarrow> Text [] | Some p \<Rightarrow> p)"

subsection \<open>The Redis server\<close>

text \<open>
  A key holds a string and, once SETEX or EXPIRE has set one, the time at which it
  expires. Time is counted in seconds; a key is gone for every command once the time is
  past its expiry time. A command sent while the server cannot be reached (connection lost,
  command timeout, retries exhausted) rejects with an error and changes nothing.
\<close>

record entry =
  content :: payload
  expires :: "nat option"

record redis =
  entries :: "string \<Rightarrow> entry option"
  clock :: nat
  online :: bool

definition live :: "nat \<Rightarrow> entry \<Rightarrow> bool" where
  "live t e = (case expires e of None \<Rightarrow> True | Some x \<Rightarrow> t \<le> x)"

definition lookup :: "redis \<Rightarrow> string \<Rightarrow> entry option" where
  "lookup r k =
     (case entries r k of
        None \<Rightarrow> None
      | Some e \<Rightarrow> if live (clock r) e then Some e else None)"

text \<open>The passing of \<open>d\<close> seconds.\<close>

definition advance :: "nat \<Rightarrow> redis \<Rightarrow> redis" where
  "advance d r = r\<lparr>clock := clock r + d\<rparr>"

text \<open>GET: the string of a live key, or \<^verbatim>\<open>null\<close>.\<close>

definition redis_get :: "string \<Rightarrow> redis \<Rightarrow> error + payload option" where
  "redis_get k r =
     (if online r then Inr (map_option content (lookup r k)) else Inl ConnectionError)"

text \<open>SETEX: value and expiry in one command; a duration that is not positive is refused.\<close>

definition redis_setex :: "string \<Rightarrow> int \<Rightarrow> payload \<Rightarrow> redis \<Rightarrow> error + redis" where
  "redis_setex k ttl p r =
     (if \<not> online r then Inl ConnectionError
      else if ttl \<le> 0 then Inl ReplyError
      else Inr (r\<lparr>entries := (entries r)(k \<mapsto> \<lparr>content = p, expires = Some (clock r + nat ttl)\<rparr>)\<rparr>))"

text \<open>
  INCR: a missing key counts from 0 and gets no expiry; a key that holds the decimal
  text of a 64-bit integer is incremented and keeps its expiry; anything else, and an
  overflow, is an error reply that leaves the key as it is.
\<close>

definition as_int64 :: "payload \<Rightarrow> int option" where
  "as_int64 p =
     (case p of
        Json (JNum q) \<Rightarrow>
          if of_int \<lfloor>q\<rfloor> = q \<and> - (2 ^ 63) \<le> \<lfloor>q\<rfloor> \<and> \<lfloor>q\<rfloor> < 2 ^ 63 then Some \<lfloor>q\<rfloor> else None
      | _ \<Rightarrow> None)"

definition redis_incr :: "string \<Rightarrow> redis \<Rightarrow> redis" where
  "redis_incr k r =
     (case lookup r k of
        None \<Rightarrow> r\<lparr>entries := (entries r)(k \<mapsto> \<lparr>content = Json (JNum 1), expires = None\<rparr>)\<rparr>
      | Some e \<Rightarrow>
          (case as_int64 (content e) of
             None \<Rightarrow> r
           | Some n \<Rightarrow>
               if n = 2 ^ 63 - 1 then r
               else r\<lparr>entries := (entries r)(k \<mapsto> e\<lparr>content := Json (JNum (of_int (n + 1)))\<rparr>)\<rparr>))"

text \<open>
  EXPIRE: sets the expiry of a live key, whether it had one or not; a duration that is
  not positive deletes the key.
\<close>

definition redis_expire :: "string \<Rightarrow> int \<Rightarrow> redis \<Rightarrow> redis" where
  "redis_expire k ttl r =
     (case lookup r k of
        None \<Rightarrow> r
      | Some e \<Rightarrow>
          if ttl \<le> 0 then r\<lparr>entries := (entries r)(k := None)\<rparr>
          else r\<lparr>entries := (entries r)(k \<mapsto> e\<lparr>expires := Some (clock r + nat ttl)\<rparr>)\<rparr>)"

text \<open>
  \<^verbatim>\<open>redis.multi().incr(key).expire(key, ttl).exec()\<close>: both commands run, in this order, as
  one transaction; an error reply of INCR does not stop EXPIRE and does not reject the
  promise. The caller does not read the replies.
\<close>

definition multi_incr_expire :: "string \<Rightarrow> int \<Rightarrow> redis \<Rightarrow> error + redis" where
  "multi_incr_expire k ttl r =
     (if online r then Inr (redis_expire k ttl (redis_incr k r)) else Inl ConnectionError)"

subsection \<open>parseInt\<close>

text \<open>
  \<^verbatim>\<open>parseInt(s)\<close> skips leading white space, reads a sign, takes the digits that follow
  (hexadecimal ones after \<^verbatim>\<open>0x\<close>) and stops at the first other character; with no digit
  the result is NaN, here \<open>None\<close>. On the JSON text of a number, written in positional
  notation, it yields the integer part; every other JSON text starts with a character
  that is no digit.
\<close>

definition is_space :: "char \<Rightarrow> bool" where
  "is_space c = (c \<in> set [CHR '' '', CHR 0x09, CHR 0x0A, CHR 0x0B, CHR 0x0C, CHR 0x0D])"

definition digit_of :: "nat \<Rightarrow> char \<Rightarrow> nat option" where
  "digit_of radix c =
     (let n = (of_char c :: nat);
          d = (if 48 \<le> n \<and> n \<le> 57 then Some (n - 48)
               else if 97 \<le> n \<and> n \<le> 102 then Some (n - 87)
               else if 65 \<le> n \<and> n \<le> 70 then Some (n - 55)
               else None)
      in case d of None \<Rightarrow> None | Some v \<Rightarrow> if v < radix then Some v else None)"

fun read_digits :: "nat \<Rightarrow> string \<Rightarrow> nat option \<Rightarrow> nat option" where
  "read_digits radix [] acc = acc"
| "read_digits radix (c # cs) acc =
     (case digit_of radix c of
        None \<Rightarrow> acc
      | Some d \<Rightarrow> read_digits radix cs (Some ((case acc of None \<Rightarrow> 0 | Some a \<Rightarrow> a) * radix + d)))"

definition parseInt_string :: "string \<Rightarrow> int option" where
  "parseInt_string s =
     (let t = dropWhile is_space s;
          neg = (case t of c # u \<Rightarrow> c = CHR ''-'' | [] \<Rightarrow> False);
          u = (case t of c # u \<Rightarrow> if c = CHR ''-'' \<or> c = CHR ''+'' then u else t | [] \<Rightarrow> t);
          hex = (case u of c # x # w \<Rightarrow> c = CHR ''0'' \<and> (x = CHR ''x'' \<or> x = CHR ''X'') | _ \<Rightarrow> False);
          n = (if hex then read_digits 16 (drop 2 u) None else read_digits 10 u None)
      in map_option (\<lambda>n. if neg then - int n else int n) n)"

fun parseInt :: "payload \<Rightarrow> int option" where
  "parseInt (Json (JNum q)) = Some (if 0 \<le> q then \<lfloor>q\<rfloor> else \<lceil>q\<rceil>)"
| "parseInt (Json v) = None"
| "parseInt (Text s) = parseInt_string s"

subsection \<open>The rate limiter\<close>

text \<open>
  \<^verbatim>\<open>checkRateLimit(ip, limit = 1000)\<close>. The test \<^verbatim>\<open>current && parseInt(current) >= limit\<close>
  is \<open>over_limit\<close>: a comparison with NaN is false. The result is the promise's outcome
  and the server's state after the call.
\<close>

definition over_limit :: "payload option \<Rightarrow> int \<Rightarrow> bool" where
  "over_limit current limit =
     (case current of
        None \<Rightarrow> False
      | Some p \<Rightarrow> text_truthy p \<and> (case parseInt p of None \<Rightarrow> False | Some n \<Rightarrow> limit \<le> n))"

definition checkRateLimit :: "string \<Rightarrow> int option \<Rightarrow> redis \<Rightarrow> (error + bool) \<times> redis" where
  "checkRateLimit ip limit_arg r =
     (let limit = (case limit_arg of None \<Rightarrow> 1000 | Some l \<Rightarrow> l);
          key = CACHE_KEYS (RATE_LIMIT ip)
      in case redis_get key r of
           Inl e \<Rightarrow> (Inl e, r)
         | Inr current \<Rightarrow>
             if over_limit current limit then (Inr False, r)
             else (case multi_incr_expire key TTL_RATE_LIMIT r of
                     Inl e \<Rightarrow> (Inl e, r)
                   | Inr r' \<Rightarrow> (Inr True, r')))"

subsection \<open>The facade: plumbing\<close>

text \<open>
  A write method awaits its commands one after the other; the first rejection ends the
  method with that error. The result of a write is the promise's outcome and the
  server's state.
\<close>

definition setex_await :: "string \<Rightarrow> int \<Rightarrow> payload \<Rightarrow> redis \<Rightarrow> (error + unit) \<times> redis" where
  "setex_await k ttl p r =
     (case redis_setex k ttl p r of Inl e \<Rightarrow> (Inl e, r) | Inr r' \<Rightarrow> (Inr (), r'))"

definition and_then ::
  "(error + unit) \<times> redis \<Rightarrow> (redis \<Rightarrow> (error + unit) \<times> redis) \<Rightarrow> (error + unit) \<times> redis" where
  "and_then a f = (case fst a of Inl e \<Rightarrow> (Inl e, snd a) | Inr u \<Rightarrow> f (snd a))"

text \<open>
  Every read method is \<^verbatim>\<open>const cached = await redis.get(KEY); return cached ?
  JSON.parse(cached) : dflt\<close>, with \<^verbatim>\<open>null\<close> or \<^verbatim>\<open>[]\<close> for \<open>dflt\<close>. None has a
  \<^verbatim>\<open>try\<close>: a rejection of GET and an exception of \<^verbatim>\<open>JSON.parse\<close> reject the method's
  promise.
\<close>

definition cached_or :: "string \<Rightarrow> jsval \<Rightarrow> redis \<Rightarrow> error + jsval" where
  "cached_or k dflt r =
     (case redis_get k r of
        Inl e \<Rightarrow> Inl e
      | Inr cached \<Rightarrow>
          (case cached of
             None \<Rightarrow> Inr dflt
           | Some p \<Rightarrow> if text_truthy p then JSON_parse p else Inr dflt))"

subsection \<open>Dashboard metrics\<close>

text \<open>
  A metric of the argument of \<^verbatim>\<open>cacheDashboardMetrics\<close> is a number, or is missing, or
  is one of the other primitive values a caller may leave in its place.
\<close>

datatype metric = Missing | MNull | MBool bool | MNum rat | MNaN

record metrics =
  activeThreats :: metric
  revenueAtRisk :: metric
  networkHealth :: metric
  slaStatus :: metric

fun metric_val :: "metric \<Rightarrow> jsval" where
  "metric_val Missing = JUndefined"
| "metric_val MNull = JNull"
| "metric_val (MBool b) = JBool b"
| "metric_val (MNum q) = JNum q"
| "metric_val MNaN = JNaN"

text \<open>\<^verbatim>\<open>metrics.field || dflt\<close>, with a number for \<open>dflt\<close>.\<close>

definition metric_or :: "metric \<Rightarrow> rat \<Rightarrow> metric" where
  "metric_or m dflt = (if truthy (metric_val m) then m else MNum dflt)"

text \<open>The string the client library sends for a metric handed to it as it is.\<close>

fun metric_arg :: "metric \<Rightarrow> payload" where
  "metric_arg Missing = Text []"
| "metric_arg MNull = Text []"
| "metric_arg (MBool b) = Json (JBool b)"
| "metric_arg (MNum q) = Json (JNum q)"
| "metric_arg MNaN = Text ''NaN''"

text \<open>
  \<^verbatim>\<open>cacheDashboardMetrics(metrics)\<close>; \<open>now_iso\<close> is the value of
  \<^verbatim>\<open>new Date().toISOString()\<close> at the call.
\<close>

definition cacheDashboardMetrics :: "metrics \<Rightarrow> string \<Rightarrow> redis \<Rightarrow> (error + unit) \<times> redis" where
  "cacheDashboardMetrics m now_iso r =
     (let data = JObj
            [(''activeThreats'', metric_val (metric_or (activeThreats m) 23)),
             (''revenueAtRisk'', metric_val (metric_or (revenueAtRisk m) 127450)),
             (''networkHealth'', metric_val (metric_or (networkHealth m) 94.2)),
             (''slaStatus'', metric_val (metric_or (slaStatus m) 99.1)),
             (''lastUpdated'', JStr now_iso)]
      in and_then (setex_await (CACHE_KEYS DASHBOARD_METRICS) TTL_DASHBOARD
                     (string_arg (JSON_stringify data)) r) (\<lambda>r.
         and_then (setex_await (CACHE_KEYS ACTIVE_THREATS_COUNT) TTL_DASHBOARD
                     (metric_arg (metric_or (activeThreats m) 23)) r) (\<lambda>r.
         and_then (setex_await (CACHE_KEYS REVENUE_AT_RISK) TTL_DASHBOARD
                     (metric_arg (metric_or (revenueAtRisk m) 127450)) r) (\<lambda>r.
         and_then (setex_await (CACHE_KEYS NETWORK_HEALTH) TTL_DASHBOARD
                     (metric_arg (metric_or (networkHealth m) 94.2)) r) (\<lambda>r.
         setex_await (CACHE_KEYS SLA_STATUS) TTL_DASHBOARD
                     (metric_arg (metric_or (slaStatus m) 99.1)) r)))))"

definition getDashboardMetrics :: "redis \<Rightarrow> error + jsval" where
  "getDashboardMetrics r = cached_or (CACHE_KEYS DASHBOARD_METRICS) JNull r"

subsection \<open>Active and critical alerts\<close>

text \<open>
  \<^verbatim>\<open>alerts.map(alert => ({...}))\<close> builds, for every alert, an object of nine properties
  read from it; it throws a TypeError when \<^verbatim>\<open>alerts\<close> is no array and when an element is
  \<^verbatim>\<open>undefined\<close> or \<^verbatim>\<open>null\<close>.
\<close>

definition alert_shape :: "jsval \<Rightarrow> error + jsval" where
  "alert_shape alert =
     (if nullish alert then Inl TypeError
      else Inr (JObj
        [(''id'', member_of alert ''id''),
         (''alertNumber'', member_of alert ''alert_number''),
         (''type'', member_of alert ''alert_type''),
         (''severity'', member_of alert ''severity''),
         (''confidence'', member_of alert ''confidence_score''),
         (''status'', member_of alert ''status''),
         (''location'', member_of alert ''location''),
         (''assignedTo'', member_of alert ''assigned_to''),
         (''detectionTime'', member_of alert ''detection_time'')]))"

fun map_throwing :: "('a \<Rightarrow> error + 'b) \<Rightarrow> 'a list \<Rightarrow> error + 'b list" where
  "map_throwing f [] = Inr []"
| "map_throwing f (x # xs) =
     (case f x of
        Inl e \<Rightarrow> Inl e
      | Inr y \<Rightarrow> (case map_throwing f xs of Inl e \<Rightarrow> Inl e | Inr ys \<Rightarrow> Inr (y # ys)))"

definition is_critical :: "jsval \<Rightarrow> bool" where
  "is_critical alert = (member_of alert ''severity'' = JStr ''critical'')"

definition cacheActiveAlerts :: "jsval \<Rightarrow> redis \<Rightarrow> (error + unit) \<times> redis" where
  "cacheActiveAlerts alerts r =
     (case alerts of
        JArr xs \<Rightarrow>
          (case map_throwing alert_shape xs of
             Inl e \<Rightarrow> (Inl e, r)
           | Inr alertsData \<Rightarrow>
               and_then (setex_await (CACHE_KEYS ACTIVE_ALERTS) TTL_ALERTS
                           (string_arg (JSON_stringify (JArr alertsData))) r) (\<lambda>r.
               let criticalAlerts = filter is_critical alertsData
               in setex_await (CACHE_KEYS CRITICAL_ALERTS) TTL_REAL_TIME
                    (string_arg (JSON_stringify (JArr criticalAlerts))) r))
      | _ \<Rightarrow> (Inl TypeError, r))"

definition getActiveAlerts :: "redis \<Rightarrow> error + jsval" where
  "getActiveAlerts r = cached_or (CACHE_KEYS ACTIVE_ALERTS) (JArr []) r"

definition getCriticalAlerts :: "redis \<Rightarrow> error + jsval" where
  "getCriticalAlerts r = cached_or (CACHE_KEYS CRITICAL_ALERTS) (JArr []) r"

subsection \<open>The other read methods, and user sessions\<close>

definition getFraudStatistics :: "redis \<Rightarrow> error + jsval" where
  "getFraudStatistics r = cached_or (CACHE_KEYS FRAUD_STATS) JNull r"

definition getFraudTimeline :: "redis \<Rightarrow> error + jsval" where
  "getFraudTimeline r = cached_or (CACHE_KEYS FRAUD_TIMELINE) (JArr []) r"

definition getNetworkMetrics :: "redis \<Rightarrow> error + jsval" where
  "getNetworkMetrics r = cached_or (CACHE_KEYS NETWORK_TRAFFIC) JNull r"

definition getMLPrediction :: "string \<Rightarrow> redis \<Rightarrow> error + jsval" where
  "getMLPrediction alertId r = cached_or (CACHE_KEYS (MODEL_CONFIDENCE alertId)) JNull r"

definition getCorrelationResults :: "redis \<Rightarrow> error + jsval" where
  "getCorrelationResults r = cached_or (CACHE_KEYS CORRELATION_RESULTS) (JArr []) r"

definition getSystemComponents :: "redis \<Rightarrow> error + jsval" where
  "getSystemComponents r = cached_or (CACHE_KEYS SYSTEM_COMPONENTS) (JArr []) r"

definition getInvestigation :: "string \<Rightarrow> redis \<Rightarrow> error + jsval" where
  "getInvestigation investigationId r =
     cached_or (CACHE_KEYS (INVESTIGATION_DETAILS investigationId)) JNull r"

definition cacheUserSession :: "string \<Rightarrow> jsval \<Rightarrow> redis \<Rightarrow> (error + unit) \<times> redis" where
  "cacheUserSession userId sessionData r =
     setex_await (CACHE_KEYS (USER_SESSION userId)) TTL_SESSION
       (string_arg (JSON_stringify sessionData)) r"

definition getUserSession :: "string \<Rightarrow> redis \<Rightarrow> error + jsval" where
  "getUserSession userId r = cached_or (CACHE_KEYS (USER_SESSION userId)) JNull r"

subsection \<open>The response-cache middleware\<close>

text \<open>
  \<^verbatim>\<open>cacheMiddleware(ttl = TTL.DASHBOARD)\<close> returns the middleware
  \<^verbatim>\<open>async (req, res, next)\<close>. The downstream handler that \<^verbatim>\<open>next()\<close> runs is given by the
  bodies it passes to \<^verbatim>\<open>res.json\<close>, in order (none when it answers by other means).
  The outcome records what reached the original \<^verbatim>\<open>res.json\<close> and how often \<^verbatim>\<open>next\<close>
  was called. On a hit \<^verbatim>\<open>res.json\<close> is not replaced and \<^verbatim>\<open>next\<close> is not called. On a
  miss \<^verbatim>\<open>res.json\<close> is replaced by a function that issues SETEX without awaiting it (a
  rejection is lost) and then calls the original. The \<^verbatim>\<open>catch\<close> covers GET and
  \<^verbatim>\<open>JSON.parse\<close>: it calls \<^verbatim>\<open>next()\<close> with \<^verbatim>\<open>res.json\<close> as it was. Of the request the
  middleware reads \<^verbatim>\<open>req.method\<close>, here \<open>req_method\<close>, and \<^verbatim>\<open>req.originalUrl\<close>.
\<close>

record request =
  req_method :: string
  originalUrl :: string

record outcome =
  sent :: "jsval list"
  next_calls :: nat

type_synonym handler = "request \<Rightarrow> jsval list"

definition http_key :: "request \<Rightarrow> string" where
  "http_key req = ''cybercell:http:'' @ req_method req @ '':'' @ originalUrl req"

definition setex_forget :: "string \<Rightarrow> int \<Rightarrow> payload \<Rightarrow> redis \<Rightarrow> redis" where
  "setex_forget k ttl p r = (case redis_setex k ttl p r of Inl e \<Rightarrow> r | Inr r' \<Rightarrow> r')"

definition caching_json :: "string \<Rightarrow> int \<Rightarrow> jsval \<Rightarrow> redis \<Rightarrow> redis" where
  "caching_json key ttl body r = setex_forget key ttl (string_arg (JSON_stringify body)) r"

definition cacheMiddleware ::
  "int option \<Rightarrow> request \<Rightarrow> handler \<Rightarrow> redis \<Rightarrow> outcome \<times> redis" where
  "cacheMiddleware ttl_arg req handler r =
     (let ttl = (case ttl_arg of None \<Rightarrow> TTL_DASHBOARD | Some t \<Rightarrow> t);
          key = http_key req;
          caught = (\<lparr>sent = handler req, next_calls = 1\<rparr>, r);
          missed = (\<lparr>sent = handler req, next_calls = 1\<rparr>,
                    fold (caching_json key ttl) (handler req) r)
      in case redis_get key r of
           Inl e \<Rightarrow> caught
         | Inr cached \<Rightarrow>
             (case cached of
                None \<Rightarrow> missed
              | Some p \<Rightarrow>
                  if text_truthy p
                  then (case JSON_parse p of
                          Inl e \<Rightarrow> caught
                        | Inr body \<Rightarrow> (\<lparr>sent = [body], next_calls = 0\<rparr>, r))
                  else missed))"


subsection \<open>Concrete inputs\<close>

text \<open>Server states and requests at which the results below are evaluated.\<close>

definition empty_store :: redis where
  "empty_store = \<lparr>entries = Map.empty, clock = 0, online = True\<rparr>"

definition store_at_limit :: redis where
  "store_at_limit =
     \<lparr>entries = [CACHE_KEYS (RATE_LIMIT ''10.0.0.1'') \<mapsto>
                   \<lparr>content = Json (JNum 3), expires = Some 60\<rparr>],
      clock = 0, online = True\<rparr>"

definition store_after_one_call :: redis where
  "store_after_one_call =
     \<lparr>entries = [CACHE_KEYS (RATE_LIMIT ''10.0.0.1'') \<mapsto>
                   \<lparr>content = Json (JNum 1), expires = Some 60\<rparr>],
      clock = 30, online = True\<rparr>"

definition two_alerts :: "jsval list" where
  "two_alerts =
     [JObj [(''id'', JStr ''1''), (''alert_number'', JStr ''FR-2024-001''),
            (''severity'', JStr ''critical'')],
      JObj [(''id'', JStr ''2''), (''severity'', JStr ''low'')]]"

definition offline_store :: redis where
  "offline_store = \<lparr>entries = Map.empty, clock = 0, online = False\<rparr>"

definition malformed_store :: redis where
  "malformed_store =
     \<lparr>entries = [CACHE_KEYS DASHBOARD_METRICS \<mapsto>
                   \<lparr>content = Text ''{oops'', expires = Some 60\<rparr>],
      clock = 0, online = True\<rparr>"


section \<open>Properties\<close>

subsection \<open>Keys\<close>

text \<open>
  C4. Key building is a function of the entry of \<^verbatim>\<open>CACHE_KEYS\<close> and of the identifier
  given to it, and it is injective: two keys are the same string exactly when they come
  from the same entry with the same identifier. In particular entries of different
  categories never share a key, whatever the identifiers.
\<close>

theorem cache_keys_injective: "(CACHE_KEYS a = CACHE_KEYS b) = (a = b)"
  by (cases a; cases b; simp)

theorem cache_keys_injective_witness:
  "CACHE_KEYS (ALERT_DETAILS ''7'') \<noteq> CACHE_KEYS (INCIDENT_DETAILS ''7'') \<and>
   CACHE_KEYS (COMPONENT_STATUS ''s'') \<noteq> CACHE_KEYS SYSTEM_COMPONENTS \<and>
   CACHE_KEYS (USER_SESSION ''7'') \<noteq> CACHE_KEYS (USER_SESSION ''8'')"
  using cache_keys_injective [of "ALERT_DETAILS ''7''" "INCIDENT_DETAILS ''7''"]
    cache_keys_injective [of "COMPONENT_STATUS ''s''" SYSTEM_COMPONENTS]
    cache_keys_injective [of "USER_SESSION ''7''" "USER_SESSION ''8''"]
  by simp

subsection \<open>Redis commands\<close>

lemma entry_rebuild: "e\<lparr>content := a, expires := b\<rparr> = \<lparr>content = a, expires = b\<rparr>"
  by (cases e) simp

lemma advance_simps [simp]:
  "online (advance d r) = online r"
  "clock (advance d r) = clock r + d"
  "entries (advance d r) = entries r"
  by (simp_all add: advance_def)

lemma lookup_written:
  "lookup (advance d (r\<lparr>entries := (entries r)(k \<mapsto> \<lparr>content = p, expires = Some x\<rparr>)\<rparr>)) k =
     (if clock r + d \<le> x then Some \<lparr>content = p, expires = Some x\<rparr> else None)"
  by (simp add: lookup_def live_def)

lemma incr_live: "lookup (redis_incr k r) k \<noteq> None"
  by (auto simp: redis_incr_def lookup_def live_def split: option.splits)

lemma incr_clock: "clock (redis_incr k r) = clock r"
  by (auto simp: redis_incr_def split: option.splits)

lemma expire_sets:
  "0 < ttl \<Longrightarrow> lookup r k = Some e \<Longrightarrow>
   lookup (redis_expire k ttl r) k = Some (e\<lparr>expires := Some (clock r + nat ttl)\<rparr>)"
  by (simp add: redis_expire_def lookup_def live_def)

lemma incr_expire_absent:
  assumes "lookup r k = None" "0 < ttl"
  shows "redis_expire k ttl (redis_incr k r) =
    r\<lparr>entries := (entries r)(k \<mapsto> \<lparr>content = Json (JNum 1), expires = Some (clock r + nat ttl)\<rparr>)\<rparr>"
  using assms by (simp add: redis_incr_def redis_expire_def lookup_def live_def)

lemma incr_expire_counter:
  assumes "lookup r k = Some e" "as_int64 (content e) = Some n" "n \<noteq> 2 ^ 63 - 1" "0 < ttl"
  shows "redis_expire k ttl (redis_incr k r) =
    r\<lparr>entries := (entries r)(k \<mapsto>
        \<lparr>content = Json (JNum (of_int (n + 1))), expires = Some (clock r + nat ttl)\<rparr>)\<rparr>"
proof -
  have alive: "live (clock r) e"
    using assms(1) by (auto simp: lookup_def split: option.splits if_splits)
  have "redis_incr k r =
      r\<lparr>entries := (entries r)(k \<mapsto> e\<lparr>content := Json (JNum (of_int (n + 1)))\<rparr>)\<rparr>"
    using assms by (simp add: redis_incr_def)
  moreover have "live (clock r) (e\<lparr>content := Json (JNum (of_int (n + 1)))\<rparr>)"
    using alive by (simp add: live_def)
  ultimately show ?thesis
    using assms(4) by (simp add: redis_expire_def lookup_def entry_rebuild)
qed

lemma as_int64_counter:
  "- (2 ^ 63) \<le> n \<Longrightarrow> n < 2 ^ 63 \<Longrightarrow> as_int64 (Json (JNum (of_int n))) = Some n"
  by (simp add: as_int64_def)

subsection \<open>The rate limiter\<close>

lemma check_fresh:
  assumes "online r" "lookup r (CACHE_KEYS (RATE_LIMIT ip)) = None"
  shows "checkRateLimit ip limit_arg r =
    (Inr True, r\<lparr>entries := (entries r)(CACHE_KEYS (RATE_LIMIT ip) \<mapsto>
        \<lparr>content = Json (JNum 1), expires = Some (clock r + 60)\<rparr>)\<rparr>)"
proof -
  define k where "k = CACHE_KEYS (RATE_LIMIT ip)"
  have "redis_get k r = Inr None"
    using assms by (simp add: redis_get_def k_def)
  moreover have "multi_incr_expire k TTL_RATE_LIMIT r =
      Inr (r\<lparr>entries := (entries r)(k \<mapsto> \<lparr>content = Json (JNum 1), expires = Some (clock r + 60)\<rparr>)\<rparr>)"
    using assms incr_expire_absent[of r k TTL_RATE_LIMIT]
    by (simp add: multi_incr_expire_def k_def TTL_RATE_LIMIT_def)
  ultimately show ?thesis
    unfolding checkRateLimit_def Let_def k_def[symmetric]
    by (simp add: over_limit_def)
qed

lemma check_under:
  assumes "online r" "lookup r (CACHE_KEYS (RATE_LIMIT ip)) = Some e"
    "content e = Json (JNum (of_int n))" "n < limit" "- (2 ^ 63) \<le> n" "n < 2 ^ 63 - 1"
  shows "checkRateLimit ip (Some limit) r =
    (Inr True, r\<lparr>entries := (entries r)(CACHE_KEYS (RATE_LIMIT ip) \<mapsto>
        \<lparr>content = Json (JNum (of_int (n + 1))), expires = Some (clock r + 60)\<rparr>)\<rparr>)"
proof -
  define k where "k = CACHE_KEYS (RATE_LIMIT ip)"
  have get: "redis_get k r = Inr (Some (content e))"
    using assms by (simp add: redis_get_def k_def)
  have "as_int64 (content e) = Some n"
    using assms by (simp add: as_int64_counter)
  then have "multi_incr_expire k TTL_RATE_LIMIT r =
      Inr (r\<lparr>entries := (entries r)(k \<mapsto>
         \<lparr>content = Json (JNum (of_int (n + 1))), expires = Some (clock r + 60)\<rparr>)\<rparr>)"
    using assms incr_expire_counter[of r k e n TTL_RATE_LIMIT]
    by (simp add: multi_incr_expire_def k_def TTL_RATE_LIMIT_def)
  moreover have "\<not> over_limit (Some (content e)) limit"
    using assms by (simp add: over_limit_def)
  ultimately show ?thesis
    unfolding checkRateLimit_def Let_def k_def[symmetric]
    using get by simp
qed

lemma check_over:
  assumes "online r" "lookup r (CACHE_KEYS (RATE_LIMIT ip)) = Some e"
    "text_truthy (content e)" "parseInt (content e) = Some n" "limit \<le> n"
  shows "checkRateLimit ip (Some limit) r = (Inr False, r)"
proof -
  define k where "k = CACHE_KEYS (RATE_LIMIT ip)"
  have get: "redis_get k r = Inr (Some (content e))"
    using assms by (simp add: redis_get_def k_def)
  moreover have "over_limit (Some (content e)) limit"
    using assms by (simp add: over_limit_def)
  ultimately show ?thesis
    unfolding checkRateLimit_def Let_def k_def[symmetric] by simp
qed

text \<open>
  C1. With limit 3 and no counter yet for the identifier, the first three calls of
  \<^verbatim>\<open>checkRateLimit\<close> are allowed and the fourth is not; once the counter has expired, a
  further call is allowed again. The calls come \<open>d1\<close>, \<open>d2\<close>, \<open>d3\<close> and \<open>d4\<close> seconds
  apart: each of the first four finds the counter still there (less than the window
  duration after the call before it), and the fifth comes when more than the window
  duration has passed since the counter's expiry was last set, by the third call.
\<close>

theorem rate_limit_three_then_reject:
  fixes d1 d2 d3 d4 :: nat
  assumes on: "online r"
    and fresh: "lookup r (CACHE_KEYS (RATE_LIMIT ip)) = None"
    and d1: "int d1 < TTL_RATE_LIMIT" and d2: "int d2 < TTL_RATE_LIMIT"
    and d3: "int d3 < TTL_RATE_LIMIT"
    and gone: "TTL_RATE_LIMIT < int (d3 + d4)"
  shows "let c1 = checkRateLimit ip (Some 3) r;
             c2 = checkRateLimit ip (Some 3) (advance d1 (snd c1));
             c3 = checkRateLimit ip (Some 3) (advance d2 (snd c2));
             c4 = checkRateLimit ip (Some 3) (advance d3 (snd c3));
             c5 = checkRateLimit ip (Some 3) (advance d4 (snd c4))
         in fst c1 = Inr True \<and> fst c2 = Inr True \<and> fst c3 = Inr True \<and>
            fst c4 = Inr False \<and> fst c5 = Inr True"
proof -
  define k where "k = CACHE_KEYS (RATE_LIMIT ip)"
  define c1 where "c1 = checkRateLimit ip (Some 3) r"
  define s1 where "s1 = advance d1 (snd c1)"
  define c2 where "c2 = checkRateLimit ip (Some 3) s1"
  define s2 where "s2 = advance d2 (snd c2)"
  define c3 where "c3 = checkRateLimit ip (Some 3) s2"
  define s3 where "s3 = advance d3 (snd c3)"
  define c4 where "c4 = checkRateLimit ip (Some 3) s3"
  define s4 where "s4 = advance d4 (snd c4)"
  define c5 where "c5 = checkRateLimit ip (Some 3) s4"
  have c1: "c1 = (Inr True, r\<lparr>entries := (entries r)(k \<mapsto>
        \<lparr>content = Json (JNum 1), expires = Some (clock r + 60)\<rparr>)\<rparr>)"
    unfolding c1_def k_def using on fresh by (rule check_fresh)
  have s1_on: "online s1"
    using on by (simp add: s1_def c1)
  have s1_look: "lookup s1 k =
      Some \<lparr>content = Json (JNum (of_int 1)), expires = Some (clock r + 60)\<rparr>"
    using d1 by (simp add: s1_def c1 lookup_written TTL_RATE_LIMIT_def)
  have c2: "c2 = (Inr True, s1\<lparr>entries := (entries s1)(k \<mapsto>
        \<lparr>content = Json (JNum (of_int (1 + 1))), expires = Some (clock s1 + 60)\<rparr>)\<rparr>)"
    unfolding c2_def k_def
    by (rule check_under[OF s1_on s1_look[unfolded k_def], where n = 1]) simp_all
  have s2_on: "online s2"
    using s1_on by (simp add: s2_def c2)
  have s2_look: "lookup s2 k =
      Some \<lparr>content = Json (JNum (of_int 2)), expires = Some (clock s1 + 60)\<rparr>"
    using d2 by (simp add: s2_def c2 lookup_written TTL_RATE_LIMIT_def)
  have c3: "c3 = (Inr True, s2\<lparr>entries := (entries s2)(k \<mapsto>
        \<lparr>content = Json (JNum (of_int (2 + 1))), expires = Some (clock s2 + 60)\<rparr>)\<rparr>)"
    unfolding c3_def k_def
    by (rule check_under[OF s2_on s2_look[unfolded k_def], where n = 2]) simp_all
  have s3_on: "online s3"
    using s2_on by (simp add: s3_def c3)
  have s3_look: "lookup s3 k =
      Some \<lparr>content = Json (JNum (of_int 3)), expires = Some (clock s2 + 60)\<rparr>"
    using d3 by (simp add: s3_def c3 lookup_written TTL_RATE_LIMIT_def)
  have c4: "c4 = (Inr False, s3)"
    unfolding c4_def k_def
    by (rule check_over[OF s3_on s3_look[unfolded k_def], where n = 3]) simp_all
  have s4_on: "online s4"
    using s3_on by (simp add: s4_def c4)
  have "s4 = advance (d3 + d4) (snd c3)"
    by (simp add: s4_def c4 s3_def advance_def)
  then have s4_look: "lookup s4 k = None"
    using gone by (simp add: c3 lookup_written TTL_RATE_LIMIT_def)
  have c5: "fst c5 = Inr True"
    unfolding c5_def using check_fresh[OF s4_on s4_look[unfolded k_def]] by simp
  show ?thesis
    using c1 c2 c3 c4 c5
    unfolding Let_def c1_def c2_def c3_def c4_def c5_def s1_def s2_def s3_def s4_def
    by simp
qed

theorem rate_limit_three_then_reject_witness:
  "online empty_store \<and> lookup empty_store (CACHE_KEYS (RATE_LIMIT ''10.0.0.1'')) = None \<and>
   fst (checkRateLimit ''10.0.0.1'' (Some 3) empty_store) = Inr True \<and>
   fst (checkRateLimit ''10.0.0.1'' (Some 3)
     (advance 25 (snd (checkRateLimit ''10.0.0.1'' (Some 3)
       (advance 20 (snd (checkRateLimit ''10.0.0.1'' (Some 3)
         (advance 10 (snd (checkRateLimit ''10.0.0.1'' (Some 3) empty_store)))))))))) = Inr False \<and>
   fst (checkRateLimit ''10.0.0.1'' (Some 3)
     (advance 40 (snd (checkRateLimit ''10.0.0.1'' (Some 3)
     (advance 25 (snd (checkRateLimit ''10.0.0.1'' (Some 3)
       (advance 20 (snd (checkRateLimit ''10.0.0.1'' (Some 3)
         (advance 10 (snd (checkRateLimit ''10.0.0.1'' (Some 3) empty_store))))))))))))) = Inr True"
proof -
  have on: "online empty_store"
    by (simp add: empty_store_def)
  have fresh: "lookup empty_store (CACHE_KEYS (RATE_LIMIT ''10.0.0.1'')) = None"
    by (simp add: empty_store_def lookup_def)
  have "int 10 < TTL_RATE_LIMIT" "int 20 < TTL_RATE_LIMIT" "int 25 < TTL_RATE_LIMIT"
    "TTL_RATE_LIMIT < int (25 + 40)"
    by (simp_all add: TTL_RATE_LIMIT_def)
  from rate_limit_three_then_reject [OF on fresh this]
  show ?thesis
    using on fresh unfolding Let_def by blast
qed

lemma lookup_stored:
  "lookup (r\<lparr>entries := (entries r)(k \<mapsto> e)\<rparr>) k = (if live (clock r) e then Some e else None)"
  by (simp add: lookup_def)

lemma first_call: "checkRateLimit ''10.0.0.1'' (Some 3) empty_store =
  (Inr True, empty_store\<lparr>entries := (entries empty_store)(CACHE_KEYS (RATE_LIMIT ''10.0.0.1'') \<mapsto>
        \<lparr>content = Json (JNum 1), expires = Some (clock empty_store + 60)\<rparr>)\<rparr>)"
  by (rule check_fresh) (simp_all add: empty_store_def lookup_def)

text \<open>
  C2, as stated, fails: a call that finds the counter at the limit is refused by the
  early \<^verbatim>\<open>return false\<close>, before the transaction that increments. With the counter at
  3 and limit 3 the call is refused and the counter is 3 afterwards, not 4.
\<close>

theorem rejected_call_increments_counterexample:
  "map_option content (lookup store_at_limit (CACHE_KEYS (RATE_LIMIT ''10.0.0.1''))) =
     Some (Json (JNum 3)) \<and>
   fst (checkRateLimit ''10.0.0.1'' (Some 3) store_at_limit) = Inr False \<and>
   map_option content (lookup (snd (checkRateLimit ''10.0.0.1'' (Some 3) store_at_limit))
     (CACHE_KEYS (RATE_LIMIT ''10.0.0.1''))) = Some (Json (JNum 3)) \<and>
   map_option content (lookup (snd (checkRateLimit ''10.0.0.1'' (Some 3) store_at_limit))
     (CACHE_KEYS (RATE_LIMIT ''10.0.0.1''))) \<noteq> Some (Json (JNum 4))"
proof -
  have look: "lookup store_at_limit (CACHE_KEYS (RATE_LIMIT ''10.0.0.1'')) =
      Some \<lparr>content = Json (JNum (of_int 3)), expires = Some 60\<rparr>"
    by (simp add: store_at_limit_def lookup_def live_def)
  have "online store_at_limit"
    by (simp add: store_at_limit_def)
  then have "checkRateLimit ''10.0.0.1'' (Some 3) store_at_limit = (Inr False, store_at_limit)"
    using look by (rule check_over[where n = 3]) simp_all
  then show ?thesis
    using look by simp
qed

text \<open>
  C2, amended. For every identifier whose counter is present and at least the limit,
  \<^verbatim>\<open>checkRateLimit\<close> reports not-allowed and leaves the server's state as it was: the
  counter and its expiry are unchanged.
\<close>

theorem rejected_call_leaves_store:
  assumes "online r"
    and "lookup r (CACHE_KEYS (RATE_LIMIT ip)) = Some e"
    and "content e = Json (JNum (of_int n))"
    and "limit \<le> n"
  shows "checkRateLimit ip (Some limit) r = (Inr False, r)"
  using assms(1,2) by (rule check_over[where n = n]) (simp_all add: assms)

theorem rejected_call_leaves_store_witness:
  "online store_at_limit \<and>
   lookup store_at_limit (CACHE_KEYS (RATE_LIMIT ''10.0.0.1'')) =
     Some \<lparr>content = Json (JNum 3), expires = Some 60\<rparr> \<and>
   checkRateLimit ''10.0.0.1'' (Some 3) store_at_limit = (Inr False, store_at_limit)"
proof -
  have on: "online store_at_limit"
    by (simp add: store_at_limit_def)
  have look: "lookup store_at_limit (CACHE_KEYS (RATE_LIMIT ''10.0.0.1'')) =
      Some \<lparr>content = Json (JNum 3), expires = Some 60\<rparr>"
    by (simp add: store_at_limit_def lookup_def live_def)
  have "checkRateLimit ''10.0.0.1'' (Some 3) store_at_limit = (Inr False, store_at_limit)"
    by (rule rejected_call_leaves_store[OF on look, where n = 3]) simp_all
  with on look show ?thesis by simp
qed

text \<open>
  C3, as stated, fails: the transaction runs EXPIRE after every INCR, not only after the
  one that created the key. A first call at time 0 sets the expiry to 60; a second call
  at time 30 moves it to 90, and at time 60, the end of the first window, the counter is
  still there with the value 2.
\<close>

theorem expiry_extended_counterexample:
  "map_option expires (lookup (snd (checkRateLimit ''10.0.0.1'' (Some 3) empty_store))
     (CACHE_KEYS (RATE_LIMIT ''10.0.0.1''))) = Some (Some 60) \<and>
   lookup (snd (checkRateLimit ''10.0.0.1'' (Some 3)
       (advance 30 (snd (checkRateLimit ''10.0.0.1'' (Some 3) empty_store)))))
     (CACHE_KEYS (RATE_LIMIT ''10.0.0.1'')) =
     Some \<lparr>content = Json (JNum 2), expires = Some 90\<rparr> \<and>
   lookup (advance 30 (snd (checkRateLimit ''10.0.0.1'' (Some 3)
       (advance 30 (snd (checkRateLimit ''10.0.0.1'' (Some 3) empty_store))))))
     (CACHE_KEYS (RATE_LIMIT ''10.0.0.1'')) =
     Some \<lparr>content = Json (JNum 2), expires = Some 90\<rparr>"
proof -
  define k where "k = CACHE_KEYS (RATE_LIMIT ''10.0.0.1'')"
  define s1 where "s1 = advance 30 (snd (checkRateLimit ''10.0.0.1'' (Some 3) empty_store))"
  have clock0: "clock empty_store = 0"
    by (simp add: empty_store_def)
  have one: "lookup (snd (checkRateLimit ''10.0.0.1'' (Some 3) empty_store)) k =
      Some \<lparr>content = Json (JNum 1), expires = Some 60\<rparr>"
    by (simp add: first_call k_def clock0 lookup_stored live_def)
  have on0: "online empty_store"
    by (simp add: empty_store_def)
  have s1_on: "online s1"
    using on0 by (simp add: s1_def first_call)
  have s1_clock: "clock s1 = 30"
    by (simp add: s1_def first_call clock0)
  have s1_look: "lookup s1 k = Some \<lparr>content = Json (JNum (of_int 1)), expires = Some 60\<rparr>"
    by (simp add: s1_def first_call lookup_written k_def clock0)
  have two: "checkRateLimit ''10.0.0.1'' (Some 3) s1 =
      (Inr True, s1\<lparr>entries := (entries s1)(k \<mapsto>
        \<lparr>content = Json (JNum (of_int (1 + 1))), expires = Some (clock s1 + 60)\<rparr>)\<rparr>)"
    unfolding k_def
    by (rule check_under[OF s1_on s1_look[unfolded k_def], where n = 1]) simp_all
  have after: "lookup (snd (checkRateLimit ''10.0.0.1'' (Some 3) s1)) k =
      Some \<lparr>content = Json (JNum 2), expires = Some 90\<rparr>"
    by (simp add: two s1_clock lookup_stored live_def)
  have later: "lookup (advance 30 (snd (checkRateLimit ''10.0.0.1'' (Some 3) s1))) k =
      Some \<lparr>content = Json (JNum 2), expires = Some 90\<rparr>"
    by (simp add: two lookup_written s1_clock)
  show ?thesis
    using one after later unfolding k_def s1_def by simp
qed

text \<open>
  C3, amended. Every call of \<^verbatim>\<open>checkRateLimit\<close> that is allowed leaves the counter with
  an expiry set to the window duration after that call, whether its increment created
  the counter or found it: a call that finds no counter leaves it at 1, a call that
  finds it at \<open>n\<close> leaves it at \<open>n + 1\<close>. So the counter expires one window after the
  most recent allowed call, not at a fixed boundary.
\<close>

theorem allowed_call_increments_and_expires:
  assumes "checkRateLimit ip limit_arg r = (Inr True, r')"
  shows "(lookup r (CACHE_KEYS (RATE_LIMIT ip)) = None \<longrightarrow>
            lookup r' (CACHE_KEYS (RATE_LIMIT ip)) =
              Some \<lparr>content = Json (JNum 1), expires = Some (clock r + nat TTL_RATE_LIMIT)\<rparr>) \<and>
         (lookup r (CACHE_KEYS (RATE_LIMIT ip)) = Some e \<and> content e = Json (JNum (of_int n)) \<and>
          - (2 ^ 63) \<le> n \<and> n < 2 ^ 63 - 1 \<longrightarrow>
            lookup r' (CACHE_KEYS (RATE_LIMIT ip)) =
              Some \<lparr>content = Json (JNum (of_int (n + 1))),
                    expires = Some (clock r + nat TTL_RATE_LIMIT)\<rparr>) \<and>
         (\<exists>e'. lookup r' (CACHE_KEYS (RATE_LIMIT ip)) = Some e' \<and>
               expires e' = Some (clock r + nat TTL_RATE_LIMIT))"
proof -
  define k where "k = CACHE_KEYS (RATE_LIMIT ip)"
  have pos: "0 < TTL_RATE_LIMIT"
    by (simp add: TTL_RATE_LIMIT_def)
  from assms have r': "r' = redis_expire k TTL_RATE_LIMIT (redis_incr k r)"
    unfolding checkRateLimit_def Let_def multi_incr_expire_def k_def
    by (auto split: sum.splits if_splits)
  have created: "lookup r' k =
      Some \<lparr>content = Json (JNum 1), expires = Some (clock r + nat TTL_RATE_LIMIT)\<rparr>"
    if "lookup r k = None"
    unfolding r' incr_expire_absent[OF that pos] by (simp add: lookup_stored live_def)
  have counted: "lookup r' k =
      Some \<lparr>content = Json (JNum (of_int (n + 1))),
            expires = Some (clock r + nat TTL_RATE_LIMIT)\<rparr>"
    if look: "lookup r k = Some e" and c: "content e = Json (JNum (of_int n))"
      and lo: "- (2 ^ 63) \<le> n" and hi: "n < 2 ^ 63 - 1"
  proof -
    have a: "as_int64 (content e) = Some n"
      using c lo hi by (simp add: as_int64_counter)
    have b: "n \<noteq> 2 ^ 63 - 1"
      using hi by simp
    show ?thesis
      unfolding r' incr_expire_counter[OF look a b pos] by (simp add: lookup_stored live_def)
  qed
  obtain e0 where e0: "lookup (redis_incr k r) k = Some e0"
    using incr_live[of k r] by auto
  have "lookup r' k = Some (e0\<lparr>expires := Some (clock (redis_incr k r) + nat TTL_RATE_LIMIT)\<rparr>)"
    unfolding r' using pos e0 by (rule expire_sets)
  then have any: "\<exists>e'. lookup r' k = Some e' \<and> expires e' = Some (clock r + nat TTL_RATE_LIMIT)"
    by (simp add: incr_clock)
  show ?thesis
    using created counted any unfolding k_def by blast
qed

theorem allowed_call_increments_and_expires_witness:
  "fst (checkRateLimit ''10.0.0.1'' (Some 3) empty_store) = Inr True \<and>
   lookup empty_store (CACHE_KEYS (RATE_LIMIT ''10.0.0.1'')) = None \<and>
   lookup (snd (checkRateLimit ''10.0.0.1'' (Some 3) empty_store))
       (CACHE_KEYS (RATE_LIMIT ''10.0.0.1'')) =
     Some \<lparr>content = Json (JNum 1), expires = Some 60\<rparr> \<and>
   fst (checkRateLimit ''10.0.0.1'' (Some 3) store_after_one_call) = Inr True \<and>
   lookup store_after_one_call (CACHE_KEYS (RATE_LIMIT ''10.0.0.1'')) =
     Some \<lparr>content = Json (JNum 1), expires = Some 60\<rparr> \<and>
   lookup (snd (checkRateLimit ''10.0.0.1'' (Some 3) store_after_one_call))
       (CACHE_KEYS (RATE_LIMIT ''10.0.0.1'')) =
     Some \<lparr>content = Json (JNum 2), expires = Some 90\<rparr>"
proof -
  define k where "k = CACHE_KEYS (RATE_LIMIT ''10.0.0.1'')"
  have c0: "clock empty_store = 0" and fresh: "lookup empty_store k = None"
    by (simp_all add: empty_store_def lookup_def k_def)
  have on1: "online store_after_one_call" and c1: "clock store_after_one_call = 30"
    by (simp_all add: store_after_one_call_def)
  have look1: "lookup store_after_one_call k =
      Some \<lparr>content = Json (JNum (of_int 1)), expires = Some 60\<rparr>"
    by (simp add: store_after_one_call_def lookup_def live_def k_def)
  have ok0: "fst (checkRateLimit ''10.0.0.1'' (Some 3) empty_store) = Inr True"
    by (simp add: first_call)
  have ok1: "fst (checkRateLimit ''10.0.0.1'' (Some 3) store_after_one_call) = Inr True"
    using check_under[OF on1 look1[unfolded k_def], where n = 1 and limit = 3] by simp
  have call0: "checkRateLimit ''10.0.0.1'' (Some 3) empty_store =
      (Inr True, snd (checkRateLimit ''10.0.0.1'' (Some 3) empty_store))"
    using ok0 by (simp add: prod_eq_iff)
  have call1: "checkRateLimit ''10.0.0.1'' (Some 3) store_after_one_call =
      (Inr True, snd (checkRateLimit ''10.0.0.1'' (Some 3) store_after_one_call))"
    using ok1 by (simp add: prod_eq_iff)
  from allowed_call_increments_and_expires [OF call0] fresh
  have r0: "lookup (snd (checkRateLimit ''10.0.0.1'' (Some 3) empty_store)) k =
      Some \<lparr>content = Json (JNum 1), expires = Some (clock empty_store + nat TTL_RATE_LIMIT)\<rparr>"
    unfolding k_def by blast
  have range: "- (2 ^ 63) \<le> (1::int)" "(1::int) < 2 ^ 63 - 1"
    by simp_all
  from allowed_call_increments_and_expires [OF call1,
      of "\<lparr>content = Json (JNum (of_int 1)), expires = Some 60\<rparr>" 1] look1 range
  have r1: "lookup (snd (checkRateLimit ''10.0.0.1'' (Some 3) store_after_one_call)) k =
      Some \<lparr>content = Json (JNum (of_int (1 + 1))),
            expires = Some (clock store_after_one_call + nat TTL_RATE_LIMIT)\<rparr>"
    unfolding k_def by simp
  show ?thesis
    using ok0 ok1 fresh look1 r0 r1 unfolding k_def c0 c1
    by (simp add: TTL_RATE_LIMIT_def)
qed

subsection \<open>JSON images and the commands of the facade\<close>



lemma setex_await_online:
  "online r \<Longrightarrow> 0 < ttl \<Longrightarrow>
   setex_await k ttl p r =
     (Inr (), r\<lparr>entries := (entries r)(k \<mapsto> \<lparr>content = p, expires = Some (clock r + nat ttl)\<rparr>)\<rparr>)"
  by (simp add: setex_await_def redis_setex_def)

lemma metric_or_image:
  "d \<noteq> 0 \<Longrightarrow> json_image (metric_val (metric_or m d)) = metric_val (metric_or m d) \<and>
     metric_val (metric_or m d) \<noteq> JUndefined"
  by (cases m) (auto simp: metric_or_def)

lemma cached_or_hit:
  "online r \<Longrightarrow> lookup r k = Some e \<Longrightarrow> content e = Json v \<Longrightarrow> cached_or k dflt r = Inr v"
  by (simp add: cached_or_def redis_get_def)

lemma cached_or_miss:
  "online r \<Longrightarrow> lookup r k = None \<Longrightarrow> cached_or k dflt r = Inr dflt"
  by (simp add: cached_or_def redis_get_def)

lemma cached_or_malformed:
  "online r \<Longrightarrow> lookup r k = Some e \<Longrightarrow> content e = Text s \<Longrightarrow> s \<noteq> [] \<Longrightarrow>
   cached_or k dflt r = Inl SyntaxError"
  by (simp add: cached_or_def redis_get_def)

lemma cached_or_offline: "\<not> online r \<Longrightarrow> cached_or k dflt r = Inl ConnectionError"
  by (simp add: cached_or_def redis_get_def)

lemma cacheDashboardMetrics_online:
  assumes "online r"
  shows "cacheDashboardMetrics m now_iso r =
    (Inr (), r\<lparr>entries := (entries r)
      (CACHE_KEYS DASHBOARD_METRICS \<mapsto>
         \<lparr>content = Json (JObj
            [(''activeThreats'', metric_val (metric_or (activeThreats m) 23)),
             (''revenueAtRisk'', metric_val (metric_or (revenueAtRisk m) 127450)),
             (''networkHealth'', metric_val (metric_or (networkHealth m) 94.2)),
             (''slaStatus'', metric_val (metric_or (slaStatus m) 99.1)),
             (''lastUpdated'', JStr now_iso)]),
          expires = Some (clock r + 60)\<rparr>,
       CACHE_KEYS ACTIVE_THREATS_COUNT \<mapsto>
         \<lparr>content = metric_arg (metric_or (activeThreats m) 23), expires = Some (clock r + 60)\<rparr>,
       CACHE_KEYS REVENUE_AT_RISK \<mapsto>
         \<lparr>content = metric_arg (metric_or (revenueAtRisk m) 127450), expires = Some (clock r + 60)\<rparr>,
       CACHE_KEYS NETWORK_HEALTH \<mapsto>
         \<lparr>content = metric_arg (metric_or (networkHealth m) 94.2), expires = Some (clock r + 60)\<rparr>,
       CACHE_KEYS SLA_STATUS \<mapsto>
         \<lparr>content = metric_arg (metric_or (slaStatus m) 99.1), expires = Some (clock r + 60)\<rparr>)\<rparr>)"
proof -
  have img: "JSON_stringify (JObj
            [(''activeThreats'', metric_val (metric_or (activeThreats m) 23)),
             (''revenueAtRisk'', metric_val (metric_or (revenueAtRisk m) 127450)),
             (''networkHealth'', metric_val (metric_or (networkHealth m) 94.2)),
             (''slaStatus'', metric_val (metric_or (slaStatus m) 99.1)),
             (''lastUpdated'', JStr now_iso)]) = Some (Json (JObj
            [(''activeThreats'', metric_val (metric_or (activeThreats m) 23)),
             (''revenueAtRisk'', metric_val (metric_or (revenueAtRisk m) 127450)),
             (''networkHealth'', metric_val (metric_or (networkHealth m) 94.2)),
             (''slaStatus'', metric_val (metric_or (slaStatus m) 99.1)),
             (''lastUpdated'', JStr now_iso)]))"
    using metric_or_image[of 23 "activeThreats m"] metric_or_image[of 127450 "revenueAtRisk m"]
      metric_or_image[of "94.2" "networkHealth m"] metric_or_image[of "99.1" "slaStatus m"]
    by (simp add: JSON_stringify_def defined_props_def)
  show ?thesis
    unfolding cacheDashboardMetrics_def Let_def img
    using assms
    by (simp add: setex_await_online and_then_def TTL_DASHBOARD_def string_arg_def
        del: CACHE_KEYS.simps)
qed

lemma read_after_write:
  assumes "online r" "0 < ttl"
  shows "cached_or k dflt (snd (setex_await k ttl p r)) =
          (if text_truthy p then JSON_parse p else Inr dflt)"
  using assms
  by (simp add: setex_await_online cached_or_def redis_get_def lookup_def live_def)

lemma cached_or_text:
  "online r \<Longrightarrow> map_option content (lookup r k) = Some (Text s) \<Longrightarrow>
   cached_or k dflt r = (if s = [] then Inr dflt else Inl SyntaxError)"
  by (auto simp: cached_or_def redis_get_def)

subsection \<open>Alerts\<close>

lemma map_throwing_members:
  "map_throwing f xs = Inr ys \<Longrightarrow> y \<in> set ys \<Longrightarrow> \<exists>x\<in>set xs. f x = Inr y"
proof (induction xs arbitrary: ys)
  case Nil
  then show ?case by simp
next
  case (Cons x xs)
  then show ?case
    by (auto split: sum.splits)
qed

lemma map_throwing_total:
  "\<forall>x\<in>set xs. \<exists>y. f x = Inr y \<Longrightarrow> \<exists>ys. map_throwing f xs = Inr ys"
  by (induction xs) auto

lemma alert_shape_total: "\<not> nullish x \<Longrightarrow> \<exists>y. alert_shape x = Inr y"
  by (simp add: alert_shape_def)

lemma image_is_string: "(json_image v = JStr s) = (v = JStr s)"
  by (cases v) (auto simp: defined_props_def)

lemma map_of_defined_props:
  "distinct (map fst kvs) \<Longrightarrow>
   map_of (defined_props kvs) n =
     (case map_of kvs n of None \<Rightarrow> None | Some v \<Rightarrow> if v = JUndefined then None else Some v)"
proof (induction kvs)
  case Nil
  then show ?case by (simp add: defined_props_def)
next
  case (Cons kv kvs)
  then have "map_of kvs (fst kv) = None"
    by (simp add: map_of_eq_None_iff)
  with Cons show ?case
    by (cases kv) (auto simp: defined_props_def split: option.splits)
qed

lemma member_of_image:
  assumes "distinct (map fst kvs)"
  shows "member_of (json_image (JObj kvs)) n = json_image (member_of (JObj kvs) n)"
proof -
  have d: "distinct (map fst (map (map_prod id json_image) kvs))"
    using assms by (simp add: comp_def)
  have "map_of (map (map_prod id json_image) kvs) n = map_option json_image (map_of kvs n)"
    by (induction kvs) auto
  then show ?thesis
    by (simp add: map_of_defined_props[OF d] split: option.splits)
qed

lemma shaped_image:
  assumes "alert_shape x = Inr y"
  shows "undefined_to_null (json_image y) = json_image y"
    and "is_critical (json_image y) = is_critical y"
proof -
  from assms obtain kvs where y: "y = JObj kvs" and d: "distinct (map fst kvs)"
    by (auto simp: alert_shape_def split: if_splits)
  show "undefined_to_null (json_image y) = json_image y"
    by (simp add: y undefined_to_null_def)
  show "is_critical (json_image y) = is_critical y"
    unfolding y is_critical_def member_of_image[OF d] by (rule image_is_string)
qed

lemma stored_critical:
  assumes "map_throwing alert_shape xs = Inr ys"
  shows "map undefined_to_null (map json_image (filter is_critical ys)) =
         filter is_critical (map undefined_to_null (map json_image ys))"
proof -
  have "\<forall>y\<in>set ys. undefined_to_null (json_image y) = json_image y \<and>
          is_critical (json_image y) = is_critical y"
    using map_throwing_members[OF assms] shaped_image by blast
  then show ?thesis
    by (induction ys) auto
qed

lemma cacheActiveAlerts_online:
  assumes "online r" "map_throwing alert_shape xs = Inr ys"
  shows "cacheActiveAlerts (JArr xs) r =
    (Inr (), r\<lparr>entries := (entries r)
      (CACHE_KEYS ACTIVE_ALERTS \<mapsto>
         \<lparr>content = Json (json_image (JArr ys)), expires = Some (clock r + 300)\<rparr>,
       CACHE_KEYS CRITICAL_ALERTS \<mapsto>
         \<lparr>content = Json (json_image (JArr (filter is_critical ys))),
          expires = Some (clock r + 30)\<rparr>)\<rparr>)"
proof -
  have "JSON_stringify (JArr zs) = Some (Json (json_image (JArr zs)))" for zs
    by (simp add: JSON_stringify_def)
  then show ?thesis
    unfolding cacheActiveAlerts_def Let_def
    using assms
    by (simp add: setex_await_online and_then_def TTL_ALERTS_def TTL_REAL_TIME_def string_arg_def
        del: CACHE_KEYS.simps json_image.simps)
qed

lemma two_alerts_shaped:
  "map_throwing alert_shape two_alerts =
     Inr [JObj [(''id'', JStr ''1''), (''alertNumber'', JStr ''FR-2024-001''),
                (''type'', JUndefined), (''severity'', JStr ''critical''),
                (''confidence'', JUndefined), (''status'', JUndefined),
                (''location'', JUndefined), (''assignedTo'', JUndefined),
                (''detectionTime'', JUndefined)],
          JObj [(''id'', JStr ''2''), (''alertNumber'', JUndefined),
                (''type'', JUndefined), (''severity'', JStr ''low''),
                (''confidence'', JUndefined), (''status'', JUndefined),
                (''location'', JUndefined), (''assignedTo'', JUndefined),
                (''detectionTime'', JUndefined)]]"
  by (simp add: two_alerts_def alert_shape_def)

lemma two_alerts_written:
  "cacheActiveAlerts (JArr two_alerts) empty_store =
    (Inr (), empty_store\<lparr>entries := (entries empty_store)
      (CACHE_KEYS ACTIVE_ALERTS \<mapsto>
         \<lparr>content = Json (JArr
            [JObj [(''id'', JStr ''1''), (''alertNumber'', JStr ''FR-2024-001''),
                   (''severity'', JStr ''critical'')],
             JObj [(''id'', JStr ''2''), (''severity'', JStr ''low'')]]),
          expires = Some 300\<rparr>,
       CACHE_KEYS CRITICAL_ALERTS \<mapsto>
         \<lparr>content = Json (JArr
            [JObj [(''id'', JStr ''1''), (''alertNumber'', JStr ''FR-2024-001''),
                   (''severity'', JStr ''critical'')]]),
          expires = Some 30\<rparr>)\<rparr>)"
proof -
  have on: "online empty_store" and c: "clock empty_store = 0"
    by (simp_all add: empty_store_def)
  show ?thesis
    unfolding cacheActiveAlerts_online[OF on two_alerts_shaped] c
    by (simp add: is_critical_def defined_props_def undefined_to_null_def del: CACHE_KEYS.simps)
qed

text \<open>
  C5. A write of the active-alerts list that completes (the server is reachable, the
  argument is an array without \<^verbatim>\<open>undefined\<close> or \<^verbatim>\<open>null\<close> elements) leaves two entries:
  the active list, expiring after 300 seconds (the alerts tier), and the critical list,
  expiring after 30 seconds (the real-time tier). The critical list is the active list
  filtered by \<^verbatim>\<open>severity === 'critical'\<close>: each of its elements has that severity and is
  an element of the active list just written.
\<close>

theorem critical_alerts_subset:
  assumes "online r" and "\<forall>x\<in>set xs. \<not> nullish x"
  shows "\<exists>active critical.
      fst (cacheActiveAlerts (JArr xs) r) = Inr () \<and>
      lookup (snd (cacheActiveAlerts (JArr xs) r)) (CACHE_KEYS ACTIVE_ALERTS) =
        Some \<lparr>content = Json (JArr active), expires = Some (clock r + 300)\<rparr> \<and>
      lookup (snd (cacheActiveAlerts (JArr xs) r)) (CACHE_KEYS CRITICAL_ALERTS) =
        Some \<lparr>content = Json (JArr critical), expires = Some (clock r + 30)\<rparr> \<and>
      critical = filter is_critical active \<and>
      (\<forall>a\<in>set critical. member_of a ''severity'' = JStr ''critical'' \<and> a \<in> set active)"
proof -
  obtain ys where ys: "map_throwing alert_shape xs = Inr ys"
    using assms(2) map_throwing_total[of xs alert_shape] alert_shape_total by blast
  define active where "active = map undefined_to_null (map json_image ys)"
  define critical where "critical = map undefined_to_null (map json_image (filter is_critical ys))"
  have crit: "critical = filter is_critical active"
    unfolding critical_def active_def using ys by (rule stored_critical)
  have w: "cacheActiveAlerts (JArr xs) r =
    (Inr (), r\<lparr>entries := (entries r)
      (CACHE_KEYS ACTIVE_ALERTS \<mapsto> \<lparr>content = Json (JArr active), expires = Some (clock r + 300)\<rparr>,
       CACHE_KEYS CRITICAL_ALERTS \<mapsto> \<lparr>content = Json (JArr critical), expires = Some (clock r + 30)\<rparr>)\<rparr>)"
    using cacheActiveAlerts_online[OF assms(1) ys] by (simp add: active_def critical_def)
  have res: "fst (cacheActiveAlerts (JArr xs) r) = Inr ()"
    by (simp only: w fst_conv)
  have la: "lookup (snd (cacheActiveAlerts (JArr xs) r)) (CACHE_KEYS ACTIVE_ALERTS) =
        Some \<lparr>content = Json (JArr active), expires = Some (clock r + 300)\<rparr>"
    unfolding w snd_conv by (simp add: lookup_def live_def)
  have lc: "lookup (snd (cacheActiveAlerts (JArr xs) r)) (CACHE_KEYS CRITICAL_ALERTS) =
        Some \<lparr>content = Json (JArr critical), expires = Some (clock r + 30)\<rparr>"
    unfolding w snd_conv by (simp add: lookup_def live_def)
  have sub: "\<forall>a\<in>set critical. member_of a ''severity'' = JStr ''critical'' \<and> a \<in> set active"
    unfolding crit by (simp add: is_critical_def)
  show ?thesis
    using res la lc crit sub by blast
qed

theorem critical_alerts_subset_witness:
  "online empty_store \<and> \<not> nullish (two_alerts ! 0) \<and> \<not> nullish (two_alerts ! 1) \<and>
   fst (cacheActiveAlerts (JArr two_alerts) empty_store) = Inr () \<and>
   lookup (snd (cacheActiveAlerts (JArr two_alerts) empty_store)) (CACHE_KEYS ACTIVE_ALERTS) =
     Some \<lparr>content = Json (JArr
            [JObj [(''id'', JStr ''1''), (''alertNumber'', JStr ''FR-2024-001''),
                   (''severity'', JStr ''critical'')],
             JObj [(''id'', JStr ''2''), (''severity'', JStr ''low'')]]),
          expires = Some 300\<rparr> \<and>
   lookup (snd (cacheActiveAlerts (JArr two_alerts) empty_store)) (CACHE_KEYS CRITICAL_ALERTS) =
     Some \<lparr>content = Json (JArr
            [JObj [(''id'', JStr ''1''), (''alertNumber'', JStr ''FR-2024-001''),
                   (''severity'', JStr ''critical'')]]),
          expires = Some 30\<rparr>"
proof -
  have on: "online empty_store" and c: "clock empty_store = 0"
    by (simp_all add: empty_store_def)
  have nn: "\<forall>x\<in>set two_alerts. \<not> nullish x"
    by (simp add: two_alerts_def)
  from critical_alerts_subset [OF on nn] obtain active critical where
    "fst (cacheActiveAlerts (JArr two_alerts) empty_store) = Inr ()"
    "lookup (snd (cacheActiveAlerts (JArr two_alerts) empty_store)) (CACHE_KEYS ACTIVE_ALERTS) =
        Some \<lparr>content = Json (JArr active), expires = Some (clock empty_store + 300)\<rparr>"
    "lookup (snd (cacheActiveAlerts (JArr two_alerts) empty_store)) (CACHE_KEYS CRITICAL_ALERTS) =
        Some \<lparr>content = Json (JArr critical), expires = Some (clock empty_store + 30)\<rparr>"
    by blast
  moreover have "\<not> nullish (two_alerts ! 0)" "\<not> nullish (two_alerts ! 1)"
    by (simp_all add: two_alerts_def)
  ultimately show ?thesis
    using on unfolding two_alerts_written snd_conv fst_conv
    by (simp add: lookup_def live_def c)
qed

subsection \<open>Reading back what was written\<close>

lemma metrics_read_back:
  assumes on: "online r"
  shows "getDashboardMetrics (snd (cacheDashboardMetrics m now_iso r)) =
            Inr (JObj
              [(''activeThreats'', metric_val (metric_or (activeThreats m) 23)),
               (''revenueAtRisk'', metric_val (metric_or (revenueAtRisk m) 127450)),
               (''networkHealth'', metric_val (metric_or (networkHealth m) 94.2)),
               (''slaStatus'', metric_val (metric_or (slaStatus m) 99.1)),
               (''lastUpdated'', JStr now_iso)])"
  unfolding cacheDashboardMetrics_online[OF on] snd_conv getDashboardMetrics_def
  by (rule cached_or_hit[where e = "\<lparr>content = Json (JObj
              [(''activeThreats'', metric_val (metric_or (activeThreats m) 23)),
               (''revenueAtRisk'', metric_val (metric_or (revenueAtRisk m) 127450)),
               (''networkHealth'', metric_val (metric_or (networkHealth m) 94.2)),
               (''slaStatus'', metric_val (metric_or (slaStatus m) 99.1)),
               (''lastUpdated'', JStr now_iso)]),
          expires = Some (clock r + 60)\<rparr>"])
     (simp_all add: on lookup_def live_def)

lemma falsy_metric: "\<not> truthy (metric_val x) \<Longrightarrow> metric_or x d = MNum d"
  by (simp add: metric_or_def)

text \<open>
  C6, as stated, fails: a write method stores what it builds from its argument, not the
  argument. An alert with the property \<^verbatim>\<open>alert_number\<close> comes back with the property
  \<^verbatim>\<open>alertNumber\<close> instead.
\<close>

theorem round_trip_counterexample:
  "getActiveAlerts (snd (cacheActiveAlerts (JArr two_alerts) empty_store)) =
     Inr (JArr
       [JObj [(''id'', JStr ''1''), (''alertNumber'', JStr ''FR-2024-001''),
              (''severity'', JStr ''critical'')],
        JObj [(''id'', JStr ''2''), (''severity'', JStr ''low'')]]) \<and>
   getActiveAlerts (snd (cacheActiveAlerts (JArr two_alerts) empty_store)) \<noteq> Inr (JArr two_alerts) \<and>
   member_of (two_alerts ! 0) ''alert_number'' = JStr ''FR-2024-001'' \<and>
   member_of (JObj [(''id'', JStr ''1''), (''alertNumber'', JStr ''FR-2024-001''),
              (''severity'', JStr ''critical'')]) ''alert_number'' = JUndefined"
proof -
  have on: "online empty_store" and c: "clock empty_store = 0"
    by (simp_all add: empty_store_def)
  have "getActiveAlerts (snd (cacheActiveAlerts (JArr two_alerts) empty_store)) =
     Inr (JArr
       [JObj [(''id'', JStr ''1''), (''alertNumber'', JStr ''FR-2024-001''),
              (''severity'', JStr ''critical'')],
        JObj [(''id'', JStr ''2''), (''severity'', JStr ''low'')]])"
    unfolding two_alerts_written snd_conv getActiveAlerts_def
    by (rule cached_or_hit[where e = "\<lparr>content = Json (JArr
            [JObj [(''id'', JStr ''1''), (''alertNumber'', JStr ''FR-2024-001''),
                   (''severity'', JStr ''critical'')],
             JObj [(''id'', JStr ''2''), (''severity'', JStr ''low'')]]),
          expires = Some 300\<rparr>"]) (simp_all add: on lookup_def live_def c)
  then show ?thesis
    by (simp add: two_alerts_def)
qed

text \<open>
  C6, amended. A write followed at once by the read of the same category returns the
  JSON image of the value the write method builds from its argument: for active alerts
  the list of the nine-property objects of \<open>alert_shape\<close> (properties renamed, other
  properties dropped, \<^verbatim>\<open>undefined\<close> ones left out); for dashboard metrics the four
  metrics, each replaced by its demo value when falsy, and \<^verbatim>\<open>lastUpdated\<close>; for a user
  session the argument itself (\<^verbatim>\<open>null\<close> when it has no JSON text).
\<close>

theorem write_then_read:
  assumes on: "online r"
  shows "(map_throwing alert_shape xs = Inr ys \<longrightarrow>
            getActiveAlerts (snd (cacheActiveAlerts (JArr xs) r)) = Inr (json_image (JArr ys))) \<and>
         getDashboardMetrics (snd (cacheDashboardMetrics m now_iso r)) =
            Inr (JObj
              [(''activeThreats'', metric_val (metric_or (activeThreats m) 23)),
               (''revenueAtRisk'', metric_val (metric_or (revenueAtRisk m) 127450)),
               (''networkHealth'', metric_val (metric_or (networkHealth m) 94.2)),
               (''slaStatus'', metric_val (metric_or (slaStatus m) 99.1)),
               (''lastUpdated'', JStr now_iso)]) \<and>
         getUserSession userId (snd (cacheUserSession userId x r)) =
            Inr (if json_image x = JUndefined then JNull else json_image x)"
proof (intro conjI impI)
  assume ys: "map_throwing alert_shape xs = Inr ys"
  show "getActiveAlerts (snd (cacheActiveAlerts (JArr xs) r)) = Inr (json_image (JArr ys))"
    unfolding cacheActiveAlerts_online[OF on ys] snd_conv getActiveAlerts_def
    by (rule cached_or_hit[where e = "\<lparr>content = Json (json_image (JArr ys)),
          expires = Some (clock r + 300)\<rparr>"])
       (simp_all add: on lookup_def live_def del: json_image.simps)
next
  show "getDashboardMetrics (snd (cacheDashboardMetrics m now_iso r)) =
            Inr (JObj
              [(''activeThreats'', metric_val (metric_or (activeThreats m) 23)),
               (''revenueAtRisk'', metric_val (metric_or (revenueAtRisk m) 127450)),
               (''networkHealth'', metric_val (metric_or (networkHealth m) 94.2)),
               (''slaStatus'', metric_val (metric_or (slaStatus m) 99.1)),
               (''lastUpdated'', JStr now_iso)])"
    using on by (rule metrics_read_back)
next
  show "getUserSession userId (snd (cacheUserSession userId x r)) =
            Inr (if json_image x = JUndefined then JNull else json_image x)"
    unfolding getUserSession_def cacheUserSession_def
    using read_after_write[OF on, of TTL_SESSION]
    by (simp add: TTL_SESSION_def string_arg_def JSON_stringify_def)
qed

theorem write_then_read_witness:
  "online empty_store \<and>
   map_throwing alert_shape [JObj [(''id'', JStr ''2''), (''severity'', JStr ''low'')]] =
     Inr [JObj [(''id'', JStr ''2''), (''alertNumber'', JUndefined),
                (''type'', JUndefined), (''severity'', JStr ''low''),
                (''confidence'', JUndefined), (''status'', JUndefined),
                (''location'', JUndefined), (''assignedTo'', JUndefined),
                (''detectionTime'', JUndefined)]] \<and>
   getActiveAlerts (snd (cacheActiveAlerts
       (JArr [JObj [(''id'', JStr ''2''), (''severity'', JStr ''low'')]]) empty_store)) =
     Inr (JArr [JObj [(''id'', JStr ''2''), (''severity'', JStr ''low'')]]) \<and>
   getDashboardMetrics (snd (cacheDashboardMetrics
       \<lparr>activeThreats = MNum 0, revenueAtRisk = Missing, networkHealth = MNum 50,
        slaStatus = MNaN\<rparr> ''2024-01-01T00:00:00.000Z'' empty_store)) =
     Inr (JObj [(''activeThreats'', JNum 23), (''revenueAtRisk'', JNum 127450),
                (''networkHealth'', JNum 50), (''slaStatus'', JNum 99.1),
                (''lastUpdated'', JStr ''2024-01-01T00:00:00.000Z'')]) \<and>
   getUserSession ''u1'' (snd (cacheUserSession ''u1''
       (JObj [(''role'', JStr ''analyst''), (''token'', JUndefined)]) empty_store)) =
     Inr (JObj [(''role'', JStr ''analyst'')])"
proof -
  have on: "online empty_store"
    by (simp add: empty_store_def)
  have sh: "map_throwing alert_shape [JObj [(''id'', JStr ''2''), (''severity'', JStr ''low'')]] =
     Inr [JObj [(''id'', JStr ''2''), (''alertNumber'', JUndefined),
                (''type'', JUndefined), (''severity'', JStr ''low''),
                (''confidence'', JUndefined), (''status'', JUndefined),
                (''location'', JUndefined), (''assignedTo'', JUndefined),
                (''detectionTime'', JUndefined)]]"
    by (simp add: alert_shape_def)
  note t = write_then_read [OF on,
      of "[JObj [(''id'', JStr ''2''), (''severity'', JStr ''low'')]]"
         "[JObj [(''id'', JStr ''2''), (''alertNumber'', JUndefined),
                (''type'', JUndefined), (''severity'', JStr ''low''),
                (''confidence'', JUndefined), (''status'', JUndefined),
                (''location'', JUndefined), (''assignedTo'', JUndefined),
                (''detectionTime'', JUndefined)]]"
         "\<lparr>activeThreats = MNum 0, revenueAtRisk = Missing, networkHealth = MNum 50,
           slaStatus = MNaN\<rparr>" "''2024-01-01T00:00:00.000Z''" "''u1''"
         "JObj [(''role'', JStr ''analyst''), (''token'', JUndefined)]"]
  from t sh on show ?thesis
    by (simp add: metric_or_def defined_props_def undefined_to_null_def del: CACHE_KEYS.simps)
qed

subsection \<open>Failures\<close>

text \<open>
  C7, as stated, fails: no read method and no \<^verbatim>\<open>checkRateLimit\<close> has a \<^verbatim>\<open>try\<close>. With
  the server unreachable \<^verbatim>\<open>getActiveAlerts\<close> rejects, where a miss returns \<^verbatim>\<open>[]\<close>, and
  \<^verbatim>\<open>checkRateLimit\<close> rejects instead of returning \<^verbatim>\<open>true\<close>.
\<close>

theorem backend_failure_counterexample:
  "getActiveAlerts offline_store = Inl ConnectionError \<and>
   getCriticalAlerts offline_store = Inl ConnectionError \<and>
   getActiveAlerts (empty_store) = Inr (JArr []) \<and>
   fst (checkRateLimit ''10.0.0.1'' (Some 3) offline_store) = Inl ConnectionError \<and>
   fst (checkRateLimit ''10.0.0.1'' (Some 3) offline_store) \<noteq> Inr True"
proof -
  have off: "\<not> online offline_store"
    by (simp add: offline_store_def)
  have "online empty_store" "lookup empty_store (CACHE_KEYS ACTIVE_ALERTS) = None"
    by (simp_all add: empty_store_def lookup_def)
  then have "getActiveAlerts empty_store = Inr (JArr [])"
    unfolding getActiveAlerts_def by (rule cached_or_miss)
  moreover have "fst (checkRateLimit ''10.0.0.1'' (Some 3) offline_store) = Inl ConnectionError"
    using off by (simp add: checkRateLimit_def redis_get_def)
  ultimately show ?thesis
    using off by (simp add: getActiveAlerts_def getCriticalAlerts_def cached_or_offline)
qed

text \<open>
  C7, amended. When the server cannot be reached, every read method of the facade and
  \<^verbatim>\<open>checkRateLimit\<close> reject with the client's error and leave the state as it was; the
  response-cache middleware alone catches the error and runs the handler, uncached.
\<close>

theorem backend_failure_propagates:
  assumes "\<not> online r"
  shows "getDashboardMetrics r = Inl ConnectionError \<and>
         getActiveAlerts r = Inl ConnectionError \<and>
         getCriticalAlerts r = Inl ConnectionError \<and>
         getFraudStatistics r = Inl ConnectionError \<and>
         getFraudTimeline r = Inl ConnectionError \<and>
         getNetworkMetrics r = Inl ConnectionError \<and>
         getMLPrediction alertId r = Inl ConnectionError \<and>
         getCorrelationResults r = Inl ConnectionError \<and>
         getSystemComponents r = Inl ConnectionError \<and>
         getInvestigation investigationId r = Inl ConnectionError \<and>
         getUserSession userId r = Inl ConnectionError \<and>
         checkRateLimit ip limit_arg r = (Inl ConnectionError, r) \<and>
         cacheMiddleware ttl_arg req handler r = (\<lparr>sent = handler req, next_calls = 1\<rparr>, r)"
proof -
  have "checkRateLimit ip limit_arg r = (Inl ConnectionError, r)"
    using assms by (simp add: checkRateLimit_def redis_get_def)
  moreover have "cacheMiddleware ttl_arg req handler r = (\<lparr>sent = handler req, next_calls = 1\<rparr>, r)"
    using assms by (simp add: cacheMiddleware_def redis_get_def)
  ultimately show ?thesis
    using assms
    by (simp add: getDashboardMetrics_def getActiveAlerts_def getCriticalAlerts_def
        getFraudStatistics_def getFraudTimeline_def getNetworkMetrics_def getMLPrediction_def
        getCorrelationResults_def getSystemComponents_def getInvestigation_def
        getUserSession_def cached_or_offline del: CACHE_KEYS.simps)
qed

theorem backend_failure_propagates_witness:
  "\<not> online offline_store \<and>
   getDashboardMetrics offline_store = Inl ConnectionError \<and>
   getActiveAlerts offline_store = Inl ConnectionError \<and>
   getUserSession ''u1'' offline_store = Inl ConnectionError \<and>
   checkRateLimit ''10.0.0.1'' None offline_store = (Inl ConnectionError, offline_store) \<and>
   cacheMiddleware None \<lparr>req_method = ''GET'', originalUrl = ''/alerts''\<rparr>
       (\<lambda>q. [JStr ''fresh'']) offline_store =
     (\<lparr>sent = [JStr ''fresh''], next_calls = 1\<rparr>, offline_store)"
proof -
  have off: "\<not> online offline_store"
    by (simp add: offline_store_def)
  from backend_failure_propagates [OF off, of "''x''" "''y''" "''u1''" "''10.0.0.1''" None None
      "\<lparr>req_method = ''GET'', originalUrl = ''/alerts''\<rparr>" "\<lambda>q. [JStr ''fresh'']"] off
  show ?thesis by simp
qed

text \<open>
  C8, as stated, fails: \<^verbatim>\<open>JSON.parse\<close> is called outside any \<^verbatim>\<open>try\<close>. With the text
  \<^verbatim>\<open>{oops\<close> stored under the dashboard key, \<^verbatim>\<open>getDashboardMetrics\<close> rejects with the
  SyntaxError, where a miss returns \<^verbatim>\<open>null\<close>.
\<close>

theorem malformed_payload_counterexample:
  "map_option content (lookup malformed_store (CACHE_KEYS DASHBOARD_METRICS)) = Some (Text ''{oops'') \<and>
   JSON_parse (Text ''{oops'') = Inl SyntaxError \<and>
   getDashboardMetrics malformed_store = Inl SyntaxError \<and>
   getDashboardMetrics empty_store = Inr JNull"
proof -
  have on: "online malformed_store"
    by (simp add: malformed_store_def)
  have look: "lookup malformed_store (CACHE_KEYS DASHBOARD_METRICS) =
      Some \<lparr>content = Text ''{oops'', expires = Some 60\<rparr>"
    by (simp add: malformed_store_def lookup_def live_def)
  have "getDashboardMetrics malformed_store = Inl SyntaxError"
    unfolding getDashboardMetrics_def using on look
    by (rule cached_or_malformed[where s = "''{oops''"]) simp_all
  moreover have "online empty_store" "lookup empty_store (CACHE_KEYS DASHBOARD_METRICS) = None"
    by (simp_all add: empty_store_def lookup_def)
  then have "getDashboardMetrics empty_store = Inr JNull"
    unfolding getDashboardMetrics_def by (rule cached_or_miss)
  ultimately show ?thesis
    using look by simp
qed

text \<open>
  C8, amended. For every stored payload that is not a JSON text, the read method of its
  category rejects with the SyntaxError of \<^verbatim>\<open>JSON.parse\<close>; only the empty string, being
  falsy, is read as a miss.
\<close>

theorem malformed_payload_throws:
  assumes "online r"
  shows "(map_option content (lookup r (CACHE_KEYS DASHBOARD_METRICS)) = Some (Text s) \<longrightarrow>
            getDashboardMetrics r = (if s = [] then Inr JNull else Inl SyntaxError)) \<and>
         (map_option content (lookup r (CACHE_KEYS ACTIVE_ALERTS)) = Some (Text s) \<longrightarrow>
            getActiveAlerts r = (if s = [] then Inr (JArr []) else Inl SyntaxError)) \<and>
         (map_option content (lookup r (CACHE_KEYS CRITICAL_ALERTS)) = Some (Text s) \<longrightarrow>
            getCriticalAlerts r = (if s = [] then Inr (JArr []) else Inl SyntaxError)) \<and>
         (map_option content (lookup r (CACHE_KEYS FRAUD_STATS)) = Some (Text s) \<longrightarrow>
            getFraudStatistics r = (if s = [] then Inr JNull else Inl SyntaxError)) \<and>
         (map_option content (lookup r (CACHE_KEYS FRAUD_TIMELINE)) = Some (Text s) \<longrightarrow>
            getFraudTimeline r = (if s = [] then Inr (JArr []) else Inl SyntaxError)) \<and>
         (map_option content (lookup r (CACHE_KEYS NETWORK_TRAFFIC)) = Some (Text s) \<longrightarrow>
            getNetworkMetrics r = (if s = [] then Inr JNull else Inl SyntaxError)) \<and>
         (map_option content (lookup r (CACHE_KEYS (MODEL_CONFIDENCE alertId))) = Some (Text s) \<longrightarrow>
            getMLPrediction alertId r = (if s = [] then Inr JNull else Inl SyntaxError)) \<and>
         (map_option content (lookup r (CACHE_KEYS CORRELATION_RESULTS)) = Some (Text s) \<longrightarrow>
            getCorrelationResults r = (if s = [] then Inr (JArr []) else Inl SyntaxError)) \<and>
         (map_option content (lookup r (CACHE_KEYS SYSTEM_COMPONENTS)) = Some (Text s) \<longrightarrow>
            getSystemComponents r = (if s = [] then Inr (JArr []) else Inl SyntaxError)) \<and>
         (map_option content (lookup r (CACHE_KEYS (INVESTIGATION_DETAILS investigationId))) =
              Some (Text s) \<longrightarrow>
            getInvestigation investigationId r = (if s = [] then Inr JNull else Inl SyntaxError)) \<and>
         (map_option content (lookup r (CACHE_KEYS (USER_SESSION userId))) = Some (Text s) \<longrightarrow>
            getUserSession userId r = (if s = [] then Inr JNull else Inl SyntaxError))"
  unfolding getDashboardMetrics_def getActiveAlerts_def getCriticalAlerts_def
    getFraudStatistics_def getFraudTimeline_def getNetworkMetrics_def getMLPrediction_def
    getCorrelationResults_def getSystemComponents_def getInvestigation_def getUserSession_def
  using cached_or_text[OF assms] by blast

theorem malformed_payload_throws_witness:
  "online malformed_store \<and>
   map_option content (lookup malformed_store (CACHE_KEYS DASHBOARD_METRICS)) = Some (Text ''{oops'') \<and>
   getDashboardMetrics malformed_store = Inl SyntaxError"
proof -
  have on: "online malformed_store"
    by (simp add: malformed_store_def)
  have look: "map_option content (lookup malformed_store (CACHE_KEYS DASHBOARD_METRICS)) =
      Some (Text ''{oops'')"
    by (simp add: malformed_store_def lookup_def live_def)
  from malformed_payload_throws [OF on, of "''{oops''"] look on show ?thesis
    by simp
qed

subsection \<open>Metric defaults\<close>

text \<open>
  C10. \<^verbatim>\<open>cacheDashboardMetrics\<close> completes on a reachable server, and for each of
  \<^verbatim>\<open>activeThreats\<close>, \<^verbatim>\<open>revenueAtRisk\<close>, \<^verbatim>\<open>networkHealth\<close> and \<^verbatim>\<open>slaStatus\<close> that is falsy in
  the argument (missing, \<^verbatim>\<open>null\<close>, \<^verbatim>\<open>false\<close>, NaN, and also the number 0) the demo value
  23, 127450, 94.2 or 99.1 is what the stored metrics object and the metric's own key
  hold.
\<close>

theorem falsy_metric_gets_default:
  assumes on: "online r"
  shows "\<exists>d. fst (cacheDashboardMetrics m now_iso r) = Inr () \<and>
      getDashboardMetrics (snd (cacheDashboardMetrics m now_iso r)) = Inr d \<and>
      (\<not> truthy (metric_val (activeThreats m)) \<longrightarrow>
         member_of d ''activeThreats'' = JNum 23 \<and>
         map_option content (lookup (snd (cacheDashboardMetrics m now_iso r))
           (CACHE_KEYS ACTIVE_THREATS_COUNT)) = Some (Json (JNum 23))) \<and>
      (\<not> truthy (metric_val (revenueAtRisk m)) \<longrightarrow>
         member_of d ''revenueAtRisk'' = JNum 127450 \<and>
         map_option content (lookup (snd (cacheDashboardMetrics m now_iso r))
           (CACHE_KEYS REVENUE_AT_RISK)) = Some (Json (JNum 127450))) \<and>
      (\<not> truthy (metric_val (networkHealth m)) \<longrightarrow>
         member_of d ''networkHealth'' = JNum 94.2 \<and>
         map_option content (lookup (snd (cacheDashboardMetrics m now_iso r))
           (CACHE_KEYS NETWORK_HEALTH)) = Some (Json (JNum 94.2))) \<and>
      (\<not> truthy (metric_val (slaStatus m)) \<longrightarrow>
         member_of d ''slaStatus'' = JNum 99.1 \<and>
         map_option content (lookup (snd (cacheDashboardMetrics m now_iso r))
           (CACHE_KEYS SLA_STATUS)) = Some (Json (JNum 99.1)))"
proof -
  define d where "d = JObj
              [(''activeThreats'', metric_val (metric_or (activeThreats m) 23)),
               (''revenueAtRisk'', metric_val (metric_or (revenueAtRisk m) 127450)),
               (''networkHealth'', metric_val (metric_or (networkHealth m) 94.2)),
               (''slaStatus'', metric_val (metric_or (slaStatus m) 99.1)),
               (''lastUpdated'', JStr now_iso)]"
  note w = cacheDashboardMetrics_online[OF on, of m now_iso]
  have ok: "fst (cacheDashboardMetrics m now_iso r) = Inr ()"
    by (simp only: w fst_conv)
  have rd: "getDashboardMetrics (snd (cacheDashboardMetrics m now_iso r)) = Inr d"
    unfolding d_def using on by (rule metrics_read_back)
  have k1: "map_option content (lookup (snd (cacheDashboardMetrics m now_iso r))
           (CACHE_KEYS ACTIVE_THREATS_COUNT)) = Some (metric_arg (metric_or (activeThreats m) 23))"
    unfolding w snd_conv by (simp add: lookup_def live_def)
  have k2: "map_option content (lookup (snd (cacheDashboardMetrics m now_iso r))
           (CACHE_KEYS REVENUE_AT_RISK)) = Some (metric_arg (metric_or (revenueAtRisk m) 127450))"
    unfolding w snd_conv by (simp add: lookup_def live_def)
  have k3: "map_option content (lookup (snd (cacheDashboardMetrics m now_iso r))
           (CACHE_KEYS NETWORK_HEALTH)) = Some (metric_arg (metric_or (networkHealth m) 94.2))"
    unfolding w snd_conv by (simp add: lookup_def live_def)
  have k4: "map_option content (lookup (snd (cacheDashboardMetrics m now_iso r))
           (CACHE_KEYS SLA_STATUS)) = Some (metric_arg (metric_or (slaStatus m) 99.1))"
    unfolding w snd_conv by (simp add: lookup_def live_def)
  have m1: "member_of d ''activeThreats'' = metric_val (metric_or (activeThreats m) 23)"
    and m2: "member_of d ''revenueAtRisk'' = metric_val (metric_or (revenueAtRisk m) 127450)"
    and m3: "member_of d ''networkHealth'' = metric_val (metric_or (networkHealth m) 94.2)"
    and m4: "member_of d ''slaStatus'' = metric_val (metric_or (slaStatus m) 99.1)"
    by (simp_all add: d_def)
  show ?thesis
    by (rule exI[of _ d]) (simp add: ok rd k1 k2 k3 k4 m1 m2 m3 m4 falsy_metric
        del: CACHE_KEYS.simps)
qed

theorem falsy_metric_gets_default_witness:
  "online empty_store \<and>
   \<not> truthy (metric_val (MNum 0)) \<and> \<not> truthy (metric_val Missing) \<and>
   \<not> truthy (metric_val MNaN) \<and> \<not> truthy (metric_val (MBool False)) \<and>
   fst (cacheDashboardMetrics
     \<lparr>activeThreats = MNum 0, revenueAtRisk = Missing, networkHealth = MNaN,
      slaStatus = MBool False\<rparr> ''2024-01-01T00:00:00.000Z'' empty_store) = Inr () \<and>
   getDashboardMetrics (snd (cacheDashboardMetrics
     \<lparr>activeThreats = MNum 0, revenueAtRisk = Missing, networkHealth = MNaN,
      slaStatus = MBool False\<rparr> ''2024-01-01T00:00:00.000Z'' empty_store)) =
     Inr (JObj [(''activeThreats'', JNum 23), (''revenueAtRisk'', JNum 127450),
                (''networkHealth'', JNum 94.2), (''slaStatus'', JNum 99.1),
                (''lastUpdated'', JStr ''2024-01-01T00:00:00.000Z'')]) \<and>
   map_option content (lookup (snd (cacheDashboardMetrics
     \<lparr>activeThreats = MNum 0, revenueAtRisk = Missing, networkHealth = MNaN,
      slaStatus = MBool False\<rparr> ''2024-01-01T00:00:00.000Z'' empty_store))
       (CACHE_KEYS ACTIVE_THREATS_COUNT)) = Some (Json (JNum 23)) \<and>
   map_option content (lookup (snd (cacheDashboardMetrics
     \<lparr>activeThreats = MNum 0, revenueAtRisk = Missing, networkHealth = MNaN,
      slaStatus = MBool False\<rparr> ''2024-01-01T00:00:00.000Z'' empty_store))
       (CACHE_KEYS SLA_STATUS)) = Some (Json (JNum 99.1))"
proof -
  have on: "online empty_store"
    by (simp add: empty_store_def)
  define m where "m = \<lparr>activeThreats = MNum 0, revenueAtRisk = Missing, networkHealth = MNaN,
      slaStatus = MBool False\<rparr>"
  from falsy_metric_gets_default [OF on, of m "''2024-01-01T00:00:00.000Z''"]
  obtain d where
    ok: "fst (cacheDashboardMetrics m ''2024-01-01T00:00:00.000Z'' empty_store) = Inr ()"
    and rd: "getDashboardMetrics (snd (cacheDashboardMetrics m ''2024-01-01T00:00:00.000Z''
        empty_store)) = Inr d"
    and k1: "map_option content (lookup (snd (cacheDashboardMetrics m ''2024-01-01T00:00:00.000Z''
        empty_store)) (CACHE_KEYS ACTIVE_THREATS_COUNT)) = Some (Json (JNum 23))"
    and k4: "map_option content (lookup (snd (cacheDashboardMetrics m ''2024-01-01T00:00:00.000Z''
        empty_store)) (CACHE_KEYS SLA_STATUS)) = Some (Json (JNum 99.1))"
    by (auto simp: m_def simp del: CACHE_KEYS.simps)
  have "getDashboardMetrics (snd (cacheDashboardMetrics m ''2024-01-01T00:00:00.000Z''
        empty_store)) =
     Inr (JObj [(''activeThreats'', JNum 23), (''revenueAtRisk'', JNum 127450),
                (''networkHealth'', JNum 94.2), (''slaStatus'', JNum 99.1),
                (''lastUpdated'', JStr ''2024-01-01T00:00:00.000Z'')])"
    unfolding metrics_read_back[OF on] by (simp add: m_def metric_or_def)
  with ok k1 k4 on show ?thesis
    unfolding m_def by simp
qed

subsection \<open>The response cache\<close>






end
